theory Spec2Isabelle
  imports Complex_Main
begin

section \<open>Python strings\<close>

text \<open>
  A Python \<open>str\<close> is modelled as a \<open>string\<close> of 8-bit characters. The string methods
  the extractors use are given for ASCII: \<open>strip\<close> removes the ASCII characters for which
  \<open>str.isspace\<close> holds, \<open>lower\<close> and \<open>upper\<close> change the 26 letters and leave every
  other character as it is.
\<close>

definition isspace :: "char \<Rightarrow> bool" where
  "isspace c = (c \<in> set [CHR 0x09, CHR 0x0A, CHR 0x0B, CHR 0x0C, CHR 0x0D,
                           CHR 0x1C, CHR 0x1D, CHR 0x1E, CHR 0x1F, CHR 0x20])"

definition strip :: "string \<Rightarrow> string" where
  "strip s = rev (dropWhile isspace (rev (dropWhile isspace s)))"

definition upper_letters :: string where
  "upper_letters = ''ABCDEFGHIJKLMNOPQRSTUVWXYZ''"

definition lower_letters :: string where
  "lower_letters = ''abcdefghijklmnopqrstuvwxyz''"

definition lower_char :: "char \<Rightarrow> char" where
  "lower_char c = (case map_of (zip upper_letters lower_letters) c of Some d \<Rightarrow> d | None \<Rightarrow> c)"

definition upper_char :: "char \<Rightarrow> char" where
  "upper_char c = (case map_of (zip lower_letters upper_letters) c of Some d \<Rightarrow> d | None \<Rightarrow> c)"

definition lower :: "string \<Rightarrow> string" where
  "lower s = map lower_char s"

definition upper :: "string \<Rightarrow> string" where
  "upper s = map upper_char s"

definition startswith :: "string \<Rightarrow> string \<Rightarrow> bool" where
  "startswith s p = (take (length p) s = p)"

text \<open>\<open>contains sub s\<close> is Python's \<open>sub in s\<close>.\<close>

fun contains :: "string \<Rightarrow> string \<Rightarrow> bool" where
  "contains sub [] = (sub = [])"
| "contains sub (c # cs) = (startswith (c # cs) sub \<or> contains sub cs)"

section \<open>Numbers\<close>

text \<open>
  A spreadsheet number is modelled by its exact value, a rational. The binary rounding
  of IEEE doubles, infinities and not-a-number values are outside the model; so are the
  spellings \<open>inf\<close>, \<open>infinity\<close> and \<open>nan\<close> and the digit-group underscores that
  Python's \<open>float\<close> accepts in a text.
\<close>

definition digit_chars :: string where
  "digit_chars = ''0123456789''"

definition is_digit :: "char \<Rightarrow> bool" where
  "is_digit c = (c \<in> set digit_chars)"

definition digit_val :: "char \<Rightarrow> nat" where
  "digit_val c = (case map_of (zip digit_chars [0, 1, 2, 3, 4, 5, 6, 7, 8, 9]) c of
       Some d \<Rightarrow> d | None \<Rightarrow> 0)"

definition digit_char :: "nat \<Rightarrow> char" where
  "digit_char d = digit_chars ! (d mod 10)"

fun str_nat :: "nat \<Rightarrow> string" where
  "str_nat n = (if n < 10 then [digit_char n] else str_nat (n div 10) @ [digit_char n])"

declare str_nat.simps [simp del]

definition str_int :: "int \<Rightarrow> string" where
  "str_int i = (if i < 0 then CHR ''-'' # str_nat (nat (- i)) else str_nat (nat i))"

text \<open>Rounding to the nearest integer, a tie going to the even neighbour, as Python's
  \<open>round\<close>, numpy's \<open>around\<close> and the \<open>.2f\<close> format do.\<close>

definition round_half_even :: "rat \<Rightarrow> int" where
  "round_half_even x = (let f = \<lfloor>x\<rfloor>; d = x - of_int f in
     if d < 1 / 2 then f else if 1 / 2 < d then f + 1
     else if even f then f else f + 1)"

definition round2 :: "rat \<Rightarrow> rat" where
  "round2 x = of_int (round_half_even (x * 100)) / 100"

text \<open>\<open>format_2f x\<close> is \<open>f"{x:.2f}"\<close>.\<close>

definition format_2f :: "rat \<Rightarrow> string" where
  "format_2f x = (let n = nat (round_half_even (\<bar>x\<bar> * 100)) in
     (if x < 0 then ''-'' else '''') @ str_nat (n div 100) @
     [CHR ''.'', digit_char (n div 10), digit_char n])"

text \<open>\<open>repr_float x\<close> is \<open>str(x)\<close> for a float: the integer part, a point and the
  decimal digits of the fraction (at least one, at most 17). Python's change to
  exponent notation for very large and very small values is not modelled.\<close>

fun frac_digits :: "nat \<Rightarrow> rat \<Rightarrow> string" where
  "frac_digits 0 r = []"
| "frac_digits (Suc k) r = (if r = 0 then [] else
     (let d = nat \<lfloor>r * 10\<rfloor> in digit_char d # frac_digits k (r * 10 - of_nat d)))"

definition repr_float :: "rat \<Rightarrow> string" where
  "repr_float x = (let a = \<bar>x\<bar>; ip = nat \<lfloor>a\<rfloor>; fd = frac_digits 17 (a - of_nat ip) in
     (if x < 0 then ''-'' else '''') @ str_nat ip @ ''.'' @ (if fd = [] then ''0'' else fd))"

text \<open>
  Decimal literals: an optional sign, digits with an optional point (at least one digit
  in all), an optional exponent. This is the grammar shared by Python's \<open>float\<close> and by
  the parser behind \<open>pandas.to_numeric\<close>.
\<close>

definition split_sign :: "string \<Rightarrow> int \<times> string" where
  "split_sign s = (case s of
       c # r \<Rightarrow> if c = CHR ''-'' then (- 1, r) else if c = CHR ''+'' then (1, r) else (1, s)
     | [] \<Rightarrow> (1, s))"

definition nat_of_digits :: "string \<Rightarrow> nat" where
  "nat_of_digits ds = foldl (\<lambda>n c. 10 * n + digit_val c) 0 ds"

definition parse_exponent :: "string \<Rightarrow> int option" where
  "parse_exponent s = (case s of
       [] \<Rightarrow> Some 0
     | c # r \<Rightarrow>
         if c = CHR ''e'' \<or> c = CHR ''E'' then
           (let (sg, ds) = split_sign r in
            if ds \<noteq> [] \<and> list_all is_digit ds then Some (sg * int (nat_of_digits ds)) else None)
         else None)"

definition pow10 :: "int \<Rightarrow> rat" where
  "pow10 e = (if 0 \<le> e then 10 ^ nat e else 1 / 10 ^ nat (- e))"

definition parse_decimal :: "string \<Rightarrow> rat option" where
  "parse_decimal s = (let (sg, r) = split_sign s;
       ip = takeWhile is_digit r; r1 = dropWhile is_digit r;
       fp = (case r1 of c # t \<Rightarrow> if c = CHR ''.'' then takeWhile is_digit t else [] | [] \<Rightarrow> []);
       r2 = (case r1 of c # t \<Rightarrow> if c = CHR ''.'' then dropWhile is_digit t else r1 | [] \<Rightarrow> [])
     in if ip = [] \<and> fp = [] then None
        else (case parse_exponent r2 of
            None \<Rightarrow> None
          | Some e \<Rightarrow> Some (of_int sg * of_nat (nat_of_digits (ip @ fp))
                             / 10 ^ length fp * pow10 e)))"

text \<open>\<open>py_float s\<close> is \<open>float(s)\<close> on a text, \<open>None\<close> where Python raises ValueError.\<close>

definition py_float :: "string \<Rightarrow> rat option" where
  "py_float s = parse_decimal (strip s)"

text \<open>The parser of \<open>pandas.to_numeric\<close> skips the white space of the C locale.\<close>

definition isspace_ascii :: "char \<Rightarrow> bool" where
  "isspace_ascii c = (c \<in> set [CHR 0x09, CHR 0x0A, CHR 0x0B, CHR 0x0C, CHR 0x0D, CHR 0x20])"

definition pd_parse_float :: "string \<Rightarrow> rat option" where
  "pd_parse_float s =
     parse_decimal (rev (dropWhile isspace_ascii (rev (dropWhile isspace_ascii s))))"

section \<open>Cells, rows and frames\<close>

text \<open>
  A cell of a sheet is absent, a number or a text. In a pandas DataFrame the absent cell
  is the float NaN, in an openpyxl row it is \<open>None\<close>. A number read from a sheet is
  an \<open>int\<close> or a \<open>float\<close>; booleans and dates are not modelled.
  A DataFrame read with \<open>header=None\<close> is the list of its rows, top to bottom, all
  of one length; its row labels are the positions \<open>0, 1, ...\<close>. A row is read with
  its cells as the frame holds them: the change of an integer into a float that pandas
  makes when it reads a row of a frame whose columns are all numeric is not modelled.
\<close>

datatype cell = Absent | IntNum int | FloatNum rat | Text string

type_synonym row = "cell list"

type_synonym frame = "row list"

definition notna :: "cell \<Rightarrow> bool" where
  "notna c = (c \<noteq> Absent)"

text \<open>\<open>cell_str c\<close> is \<open>str(c)\<close> for a cell of a DataFrame.\<close>

definition cell_str :: "cell \<Rightarrow> string" where
  "cell_str c = (case c of
       Absent \<Rightarrow> ''nan''
     | IntNum i \<Rightarrow> str_int i
     | FloatNum x \<Rightarrow> repr_float x
     | Text s \<Rightarrow> s)"

definition rectangular :: "frame \<Rightarrow> bool" where
  "rectangular df = (case df of [] \<Rightarrow> True | r # rs \<Rightarrow> list_all (\<lambda>q. length q = length r) rs)"

subsection \<open>\<open>df.dropna(axis=1, how='all')\<close>\<close>

fun or_mask :: "bool list \<Rightarrow> bool list \<Rightarrow> bool list" where
  "or_mask [] ys = ys"
| "or_mask xs [] = xs"
| "or_mask (x # xs) (y # ys) = (x \<or> y) # or_mask xs ys"

text \<open>The mask holds, for each column, whether some row has a cell there.\<close>

definition column_mask :: "frame \<Rightarrow> bool list" where
  "column_mask df = foldr (\<lambda>r m. or_mask (map notna r) m) df []"

fun select :: "bool list \<Rightarrow> 'a list \<Rightarrow> 'a list" where
  "select (b # bs) (x # xs) = (if b then x # select bs xs else select bs xs)"
| "select bs [] = []"
| "select [] xs = []"

definition dropna_columns :: "frame \<Rightarrow> frame" where
  "dropna_columns df = map (select (column_mask df)) df"

subsection \<open>Scanning for a row\<close>

text \<open>The position of the first element that satisfies \<open>P\<close>: a \<open>for\<close> loop over the
  rows that leaves with \<open>break\<close> at the first hit.\<close>

fun find_first :: "('a \<Rightarrow> bool) \<Rightarrow> 'a list \<Rightarrow> nat option" where
  "find_first P [] = None"
| "find_first P (x # xs) = (if P x then Some 0 else map_option Suc (find_first P xs))"

text \<open>\<open>find_from P a xs\<close> is the loop \<open>for i in range(a, len(xs))\<close>.\<close>

definition find_from :: "('a \<Rightarrow> bool) \<Rightarrow> nat \<Rightarrow> 'a list \<Rightarrow> nat option" where
  "find_from P a xs = map_option (\<lambda>k. a + k) (find_first P (drop a xs))"

text \<open>\<open>iloc_rows a b df\<close> is \<open>df.iloc[a:b]\<close> and \<open>drop a df\<close> is \<open>df.iloc[a:]\<close>.\<close>

definition iloc_rows :: "nat \<Rightarrow> nat \<Rightarrow> 'a list \<Rightarrow> 'a list" where
  "iloc_rows a b df = take (b - a) (drop a df)"

text \<open>\<open>row_vals r\<close> is \<open>[str(x).strip() for x in row if pd.notna(x)]\<close>.\<close>

definition row_vals :: "row \<Rightarrow> string list" where
  "row_vals r = map (\<lambda>c. strip (cell_str c)) (filter notna r)"

text \<open>\<open>any(str(x).strip().lower() == "po attainment" for x in row if pd.notna(x))\<close>\<close>

definition is_po_attainment_row :: "row \<Rightarrow> bool" where
  "is_po_attainment_row r = list_ex (\<lambda>v. lower v = ''po attainment'') (row_vals r)"

text \<open>\<open>data.iloc[:, 0]\<close> in one row. A frame with a header row has at least two
  columns, so the row is never empty there.\<close>

definition first_cell :: "row \<Rightarrow> cell" where
  "first_cell r = (case r of [] \<Rightarrow> Absent | c # cs \<Rightarrow> c)"

text \<open>The rows that \<open>dropna(how="all")\<close> drops.\<close>

definition all_absent :: "row \<Rightarrow> bool" where
  "all_absent r = list_all (\<lambda>c. c = Absent) r"

text \<open>\<open>fillna("-")\<close> on a cell.\<close>

definition fillna_dash :: "cell \<Rightarrow> cell" where
  "fillna_dash c = (if c = Absent then Text ''-'' else c)"

section \<open>Results and errors\<close>

record 'c table =
  heading :: string
  columns :: "'c list"
  rows :: "row list"

datatype error = ValueError string | TypeError string | IndexError string

text \<open>The spreadsheet file: the DataFrame that \<open>pd.read_excel\<close> gives for each of its
  sheets. Every call builds a new DataFrame from the file.\<close>

type_synonym excel_file = "string \<Rightarrow> frame option"

definition quote :: "string \<Rightarrow> string" where
  "quote s = [CHR 0x27] @ s @ [CHR 0x27]"

definition pd_read_excel :: "excel_file \<Rightarrow> string \<Rightarrow> error + frame" where
  "pd_read_excel xls sheet_name = (case xls sheet_name of
       None \<Rightarrow> Inl (ValueError (''Worksheet named '' @ quote sheet_name @ '' not found''))
     | Some df \<Rightarrow> Inr df)"

section \<open>\<open>extract_co_mapping\<close>\<close>

text \<open>The header test of the loop at lines 34 to 40.\<close>

definition is_co_header :: "string \<Rightarrow> row \<Rightarrow> bool" where
  "is_co_header prefix r = (case row_vals r of
       v0 # v1 # vs \<Rightarrow>
         (upper v0 = ''CO'' \<or> upper v0 = prefix @ ''1'') \<and> startswith (upper v1) prefix
     | _ \<Rightarrow> False)"

text \<open>Lines 45 to 47: every cell of the header row as a trimmed text, the first one
  renamed when it is the stand-in \<open>prefix1\<close>.\<close>

definition normalize_header :: "string \<Rightarrow> row \<Rightarrow> string list" where
  "normalize_header prefix raw_header = (case map (\<lambda>c. strip (cell_str c)) raw_header of
       [] \<Rightarrow> []
     | h # hs \<Rightarrow> (if upper h = prefix @ ''1'' then ''CO'' else h) # hs)"

text \<open>Lines 50 to 61: the rows below the header, up to the stop row when there is one.
  The test \<open>if stop_idx:\<close> is false for \<open>None\<close> and for \<open>0\<close>.\<close>

definition data_region :: "nat \<Rightarrow> frame \<Rightarrow> frame" where
  "data_region header_idx df = (case find_from is_po_attainment_row (header_idx + 1) df of
       None \<Rightarrow> drop (header_idx + 1) df
     | Some stop_idx \<Rightarrow>
         if stop_idx \<noteq> 0 then iloc_rows (header_idx + 1) stop_idx df
         else drop (header_idx + 1) df)"

text \<open>Line 64: the first column as text, in lower case, against the marker. The text is
  not trimmed here.\<close>

definition is_overall_row :: "row \<Rightarrow> bool" where
  "is_overall_row r = startswith (lower (cell_str (first_cell r))) ''overall co attainment''"

text \<open>Lines 71 and 72 on one cell: \<open>pd.to_numeric(errors='coerce')\<close>, \<open>round(2)\<close>,
  \<open>fillna("-")\<close>. The value of a column of integers is kept as a \<open>FloatNum\<close>: the
  model does not tell the dtypes \<open>int64\<close> and \<open>float64\<close> apart.\<close>

definition to_numeric :: "cell \<Rightarrow> rat option" where
  "to_numeric c = (case c of
       Absent \<Rightarrow> None
     | IntNum i \<Rightarrow> Some (of_int i)
     | FloatNum x \<Rightarrow> Some x
     | Text s \<Rightarrow> pd_parse_float s)"

definition coerce_numeric :: "cell \<Rightarrow> cell" where
  "coerce_numeric c = (case to_numeric c of
       Some x \<Rightarrow> FloatNum (round2 x)
     | None \<Rightarrow> Text ''-'')"

text \<open>\<open>data[col]\<close> selects every column whose label is \<open>col\<close>: these are their
  positions.\<close>

definition label_positions :: "string \<Rightarrow> string list \<Rightarrow> nat list" where
  "label_positions col labels = filter (\<lambda>j. labels ! j = col) [0 ..< length labels]"

text \<open>\<open>data[col] = pd.to_numeric(data[col], errors='coerce').round(2).fillna("-")\<close>
  for the one column at position \<open>j\<close>.\<close>

definition convert_column :: "nat \<Rightarrow> frame \<Rightarrow> frame" where
  "convert_column j data = map (\<lambda>r. r[j := coerce_numeric (r ! j)]) data"

text \<open>The loop of lines 71 and 72 over the labels \<open>data.columns[1:]\<close>. A label that
  occurs twice among the columns selects a DataFrame, not a Series, and \<open>pd.to_numeric\<close>
  raises TypeError for it, also when there is no row.\<close>

fun round_numeric_columns :: "string list \<Rightarrow> string list \<Rightarrow> frame \<Rightarrow> error + frame" where
  "round_numeric_columns [] labels data = Inr data"
| "round_numeric_columns (col # cols) labels data =
     (case label_positions col labels of
        [j] \<Rightarrow> round_numeric_columns cols labels (convert_column j data)
      | _ \<Rightarrow> Inl (TypeError ''arg must be a list, tuple, 1-d array, or Series''))"

text \<open>Lines 66 to 74: the rows cut to the width of the header, the header as the column
  labels, \<open>fillna("-")\<close>, the loop over the columns, and the result.\<close>

definition finish_table :: "string \<Rightarrow> string list \<Rightarrow> frame \<Rightarrow> error + string table" where
  "finish_table title header data =
     (let data = map (take (length header)) data;
          data = map (map fillna_dash) data
      in case round_numeric_columns (tl header) header data of
           Inl e \<Rightarrow> Inl e
         | Inr data \<Rightarrow> Inr \<lparr>heading = title, columns = header, rows = data\<rparr>)"

text \<open>What the loop makes of one row when it ends without an error: the first cell
  filled, every other cell converted.\<close>

definition numeric_row :: "row \<Rightarrow> row" where
  "numeric_row r = (case r of [] \<Rightarrow> [] | c # cs \<Rightarrow> fillna_dash c # map coerce_numeric cs)"

definition nb_hyphen :: string where
  "nb_hyphen = [CHR 0xE2, CHR 0x80, CHR 0x91]"

definition co_mapping_of_frame :: "string \<Rightarrow> string \<Rightarrow> frame \<Rightarrow> error + string table" where
  "co_mapping_of_frame sheet_name prefix df0 =
     (let df = dropna_columns df0 in
      case find_first (is_co_header prefix) df of
        None \<Rightarrow> Inl (ValueError (''Could not locate CO'' @ nb_hyphen @ prefix @
                   '' header in '' @ quote sheet_name @ '' sheet.''))
      | Some header_idx \<Rightarrow>
          (let header = normalize_header prefix (df ! header_idx);
               data = data_region header_idx df;
               data = filter (\<lambda>r. \<not> is_overall_row r) data;
               data = filter (\<lambda>r. \<not> all_absent r) data
           in finish_table (''Mapping of CO with '' @ prefix @ ''s:'') header data))"

definition extract_co_mapping :: "excel_file \<Rightarrow> string \<Rightarrow> string \<Rightarrow> error + string table" where
  "extract_co_mapping xls sheet_name prefix = (case pd_read_excel xls sheet_name of
       Inl e \<Rightarrow> Inl e
     | Inr df \<Rightarrow> co_mapping_of_frame sheet_name prefix df)"

section \<open>\<open>extract_co_pso_mapping\<close>\<close>

text \<open>The header test of lines 85 to 91.\<close>

definition is_co_pso_header :: "row \<Rightarrow> bool" where
  "is_co_pso_header r = (case row_vals r of
       v0 # v1 # vs \<Rightarrow>
         startswith (lower v0) ''course outcomes'' \<and>
         list_ex (\<lambda>x. contains ''ps'' (lower x)) (v1 # vs)
     | _ \<Rightarrow> False)"

definition pso_header :: "row \<Rightarrow> string list" where
  "pso_header raw_header = (case map (\<lambda>c. strip (cell_str c)) raw_header of
       [] \<Rightarrow> []
     | h # hs \<Rightarrow> ''Course Outcomes'' # hs)"

text \<open>Line 103: the first column as text, trimmed, in lower case, against \<open>course\<close>.\<close>

definition is_course_row :: "row \<Rightarrow> bool" where
  "is_course_row r = (lower (strip (cell_str (first_cell r))) = ''course'')"

definition co_pso_mapping_of_frame :: "frame \<Rightarrow> error + string table" where
  "co_pso_mapping_of_frame df0 =
     (let df = dropna_columns df0 in
      case find_first is_co_pso_header df of
        None \<Rightarrow> Inl (ValueError (''Could not locate CO'' @ nb_hyphen @ ''PSO header in '' @
                   quote ''PSO Attainment'' @ '' sheet.''))
      | Some header_idx \<Rightarrow>
          (let header = pso_header (df ! header_idx);
               data = drop (header_idx + 1) df;
               data = filter (\<lambda>r. \<not> is_course_row r) data;
               data = filter (\<lambda>r. \<not> all_absent r) data
           in finish_table ''Mapping of COs with PSOs:'' header data))"

definition extract_co_pso_mapping :: "excel_file \<Rightarrow> string \<Rightarrow> error + string table" where
  "extract_co_pso_mapping xls sheet_name = (case pd_read_excel xls sheet_name of
       Inl e \<Rightarrow> Inl e
     | Inr df \<Rightarrow> co_pso_mapping_of_frame df)"

section \<open>\<open>extract_po_attainment\<close>\<close>

text \<open>\<open>row_strs r\<close> is \<open>df.iloc[i].astype(str).str.strip().tolist()\<close>.\<close>

definition row_strs :: "row \<Rightarrow> string list" where
  "row_strs r = map (\<lambda>c. strip (cell_str c)) r"

text \<open>The two tests of lines 132 to 136 on one row: a row that starts with
  \<open>co program\<close> is passed over, a row that starts with \<open>CO\<close> and has a \<open>PO\<close> cell
  after it is the header.\<close>

definition is_po_header_row :: "row \<Rightarrow> bool" where
  "is_po_header_row r = (case row_strs r of
       [] \<Rightarrow> False
     | c0 # cs \<Rightarrow>
         if startswith (lower c0) ''co program'' then False
         else upper c0 = ''CO'' \<and> list_ex (\<lambda>c. startswith (upper c) ''PO'') cs)"

text \<open>Lines 146 to 150: \<open>round(float(val), 2)\<close>, the value kept as it is when \<open>float\<close>
  raises.\<close>

definition round_or_keep :: "cell \<Rightarrow> cell" where
  "round_or_keep v = (case v of
       Absent \<Rightarrow> Absent
     | IntNum i \<Rightarrow> FloatNum (round2 (of_int i))
     | FloatNum x \<Rightarrow> FloatNum (round2 x)
     | Text s \<Rightarrow> (case py_float s of Some x \<Rightarrow> FloatNum (round2 x) | None \<Rightarrow> Text s))"

text \<open>Lines 140 to 153. \<open>df.iloc[header_idx + 1]\<close> raises IndexError when the header
  is the last row; the DataFrame constructor raises ValueError when the row and the
  columns differ in length.\<close>

definition po_attainment_of_frame :: "frame \<Rightarrow> error + cell table option" where
  "po_attainment_of_frame df0 =
     (let df = dropna_columns df0 in
      case find_first is_po_attainment_row df of
        None \<Rightarrow> Inr None
      | Some pa_idx \<Rightarrow>
          (case find_from is_po_header_row (pa_idx + 1) df of
             None \<Rightarrow> Inr None
           | Some header_idx \<Rightarrow>
               if header_idx + 1 < length df then
                 (let header = filter notna (df ! header_idx);
                      data_row = map fillna_dash (df ! (header_idx + 1));
                      rounded_row = map round_or_keep (take (length header) data_row)
                  in if length rounded_row = length header then
                       Inr (Some \<lparr>heading = ''PO Attainment Table:'', columns = header,
                                  rows = [rounded_row]\<rparr>)
                     else Inl (ValueError ''columns passed do not match the data''))
               else Inl (IndexError ''single positional indexer is out-of-bounds'')))"

definition extract_po_attainment :: "excel_file \<Rightarrow> string \<Rightarrow> error + cell table option" where
  "extract_po_attainment xls sheet_name = (case pd_read_excel xls sheet_name of
       Inl e \<Rightarrow> Inl e
     | Inr df \<Rightarrow> po_attainment_of_frame df)"

section \<open>\<open>extract_po_evaluation_table\<close>\<close>

text \<open>Line 166: the trimmed texts of the cells of the header row from column 4 on that
  are neither absent nor blank.\<close>

definition po_eval_header :: "row \<Rightarrow> string list" where
  "po_eval_header header_row =
     filter (\<lambda>s. s \<noteq> []) (map (\<lambda>c. strip (cell_str c)) (filter notna (drop 4 header_row)))"

text \<open>Lines 169 to 175 on one cell. For a number \<open>float(str(cell))\<close> is the number
  itself.\<close>

definition po_eval_value :: "cell \<Rightarrow> string" where
  "po_eval_value c = (case c of
       Absent \<Rightarrow> ''-''
     | IntNum i \<Rightarrow> format_2f (of_int i)
     | FloatNum x \<Rightarrow> format_2f x
     | Text s \<Rightarrow> (case py_float (strip s) of Some num \<Rightarrow> format_2f num | None \<Rightarrow> strip s))"

text \<open>The body of the loop of line 159 at row \<open>i\<close>: \<open>Some\<close> where it returns, \<open>None\<close>
  where the loop goes on.\<close>

definition po_eval_at :: "frame \<Rightarrow> nat \<Rightarrow> (string list \<times> string list) option" where
  "po_eval_at df i =
     (if list_ex (contains ''PO Attainment'') (row_strs (df ! i)) \<and> i + 4 < length df then
        (let header = po_eval_header (df ! (i + 3));
             data = map po_eval_value (take (length header) (drop 4 (df ! (i + 4))))
         in if 0 < length header \<and> 0 < length data then Some (header, data) else None)
      else None)"

fun first_some :: "('a \<Rightarrow> 'b option) \<Rightarrow> 'a list \<Rightarrow> 'b option" where
  "first_some f [] = None"
| "first_some f (x # xs) = (case f x of Some y \<Rightarrow> Some y | None \<Rightarrow> first_some f xs)"

definition po_evaluation_of_frame :: "frame \<Rightarrow> (string list \<times> string list) option" where
  "po_evaluation_of_frame df = first_some (po_eval_at df) [0 ..< length df]"

text \<open>Any exception, a missing sheet among them, ends in \<open>return None\<close>.\<close>

definition extract_po_evaluation_table :: "excel_file \<Rightarrow> (string list \<times> string list) option" where
  "extract_po_evaluation_table xls = (case pd_read_excel xls ''CO Attainment'' of
       Inl e \<Rightarrow> None
     | Inr df \<Rightarrow> po_evaluation_of_frame df)"

section \<open>\<open>read_excel\<close>\<close>

text \<open>An exception of one of the three calls leaves \<open>read_excel\<close> at once.\<close>

definition read_excel ::
  "excel_file \<Rightarrow> error + (string table \<times> cell table option \<times> string table)" where
  "read_excel xls = (case extract_co_mapping xls ''CO Attainment'' ''PO'' of
       Inl e \<Rightarrow> Inl e
     | Inr co_po \<Rightarrow>
         (case extract_po_attainment xls ''CO Attainment'' of
            Inl e \<Rightarrow> Inl e
          | Inr po_att \<Rightarrow>
              (case extract_co_mapping xls ''PSO Attainment'' ''PSO'' of
                 Inl e \<Rightarrow> Inl e
               | Inr co_pso \<Rightarrow> Inr (co_po, po_att, co_pso))))"

section \<open>Summary values in \<open>create_word_report\<close>\<close>

text \<open>The rows here come from openpyxl (\<open>iter_rows(values_only=True)\<close>): the absent
  cell is \<open>None\<close>, and \<open>str(None)\<close> is \<open>None\<close>.\<close>

definition ws_str :: "cell \<Rightarrow> string" where
  "ws_str c = (case c of
       Absent \<Rightarrow> ''None''
     | IntNum i \<Rightarrow> str_int i
     | FloatNum x \<Rightarrow> repr_float x
     | Text s \<Rightarrow> s)"

text \<open>\<open>isinstance(cell, (int, float))\<close>\<close>

definition is_number :: "cell \<Rightarrow> bool" where
  "is_number c = (case c of IntNum i \<Rightarrow> True | FloatNum x \<Rightarrow> True | _ \<Rightarrow> False)"

text \<open>Line 597: \<open>str(cell).strip() if cell is not None else ""\<close>\<close>

definition target_cell_text :: "cell \<Rightarrow> string" where
  "target_cell_text c = (if c = Absent then [] else strip (ws_str c))"

definition mentions_target :: "row \<Rightarrow> bool" where
  "mentions_target r =
     list_ex (\<lambda>t. contains ''number of students scoring >='' (lower t)) (map target_cell_text r)"

text \<open>Lines 598 to 601 on one row: \<open>Some\<close> where the function returns, \<open>None\<close> where
  the loop over the rows goes on.\<close>

definition target_of_row :: "row \<Rightarrow> string option" where
  "target_of_row r = (if mentions_target r then
       (case List.find is_number r of
          Some (IntNum i) \<Rightarrow> Some (str_int i)
        | Some (FloatNum x) \<Rightarrow> Some (format_2f x)
        | _ \<Rightarrow> None)
     else None)"

definition target_value_of_rows :: "row list \<Rightarrow> string" where
  "target_value_of_rows rs = (case first_some target_of_row rs of Some s \<Rightarrow> s | None \<Rightarrow> ''-'')"

text \<open>The workbook of openpyxl: the rows of each sheet. A missing sheet raises KeyError,
  which \<open>extract_target_value\<close> turns into the sentinel.\<close>

type_synonym workbook = "string \<Rightarrow> row list option"

definition extract_target_value :: "workbook \<Rightarrow> string" where
  "extract_target_value wb = (case wb ''University TH Marks'' of
       None \<Rightarrow> ''-''
     | Some rs \<Rightarrow> target_value_of_rows rs)"

text \<open>Lines 752 to 760, 777 to 785 and 819 to 829 are one loop with three labels: the
  first row with a cell whose text contains the label, then the last number of that row.\<close>

definition has_label :: "string \<Rightarrow> row \<Rightarrow> bool" where
  "has_label label r = (r \<noteq> [] \<and> list_ex (\<lambda>c. contains label (ws_str c)) r)"

definition level_scan :: "string \<Rightarrow> row list \<Rightarrow> cell option" where
  "level_scan label rs = (case List.find (has_label label) rs of
       None \<Rightarrow> None
     | Some r \<Rightarrow> List.find is_number (rev r))"

definition external_attainment :: "row list \<Rightarrow> cell option" where
  "external_attainment rs = level_scan ''Attainment Level'' rs"

definition internal_attainment :: "row list \<Rightarrow> cell option" where
  "internal_attainment rs = level_scan ''Target Level'' rs"

definition exit_survey_attainment :: "row list \<Rightarrow> cell option" where
  "exit_survey_attainment rs = level_scan ''Final attainment level'' rs"

section \<open>The wording of the specification\<close>

text \<open>Two texts are the same without regard to case when their upper-case forms agree.\<close>

definition same_text_ci :: "string \<Rightarrow> string \<Rightarrow> bool" where
  "same_text_ci a b = (upper a = upper b)"

definition startswith_ci :: "string \<Rightarrow> string \<Rightarrow> bool" where
  "startswith_ci s p = startswith (upper s) (upper p)"

text \<open>The header predicate as the specification words it: the first cell that is there
  is, without regard to case, \<open>CO\<close> or the prefix followed by \<open>1\<close>, and the second one
  starts, without regard to case, with the prefix.\<close>

definition spec_co_header :: "string \<Rightarrow> row \<Rightarrow> bool" where
  "spec_co_header prefix r = (case row_vals r of
       v0 # v1 # vs \<Rightarrow>
         (same_text_ci v0 ''CO'' \<or> same_text_ci v0 (prefix @ ''1'')) \<and> startswith_ci v1 prefix
     | _ \<Rightarrow> False)"

text \<open>The labelled value as the specification words it: the first row with a cell whose
  text contains the label as it is written, then the first number of that row read from
  its end.\<close>

definition spec_labeled_value :: "string \<Rightarrow> row list \<Rightarrow> cell option" where
  "spec_labeled_value label rs =
     (case List.find (\<lambda>r. list_ex (\<lambda>c. contains label (ws_str c)) r) rs of
        None \<Rightarrow> None
      | Some r \<Rightarrow> List.find is_number (rev r))"

section \<open>Example sheets\<close>

text \<open>The scenario of the specification: a header at row 2, three rows of data, the stop
  marker at row 6; the second column of the sheet is empty.\<close>

definition scenario_sheet :: frame where
  "scenario_sheet =
     [[Text ''Course'', Absent, Absent, Absent],
      [Absent, Absent, Absent, Absent],
      [Text ''CO'', Absent, Text ''PO1'', Text ''PO2''],
      [Text ''CO1'', Absent, FloatNum (3333 / 1000), Text ''x''],
      [Text ''CO2'', Absent, Text ''-'', FloatNum (2667 / 1000)],
      [Text ''Overall CO Attainment: 3.0'', Absent, Absent, Absent],
      [Text ''PO Attainment'', Absent, Absent, Absent],
      [Text ''CO'', Absent, Text ''PO1'', Text ''PO2''],
      [Text ''CO'', Absent, FloatNum (5 / 2), FloatNum 3]]"

definition blank_row :: row where
  "blank_row = [Absent, Absent, Absent, Absent, Absent, Absent]"

text \<open>The marker of the evaluation table at row 10, its header at row 13, its data at
  row 14.\<close>

definition evaluation_sheet :: frame where
  "evaluation_sheet =
     [blank_row, blank_row, blank_row, blank_row, blank_row,
      blank_row, blank_row, blank_row, blank_row, blank_row,
      [Text ''Result of PO Attainment'', Absent, Absent, Absent, Absent, Absent],
      blank_row,
      blank_row,
      [Text ''CO'', Text [], Text [], Text [], Text ''PO1'', Text ''PO2''],
      [Text ''CO1'', Text [], Text [], Text [], FloatNum 75, FloatNum 80]]"

text \<open>A file whose sheet \<open>CO Attainment\<close> has no header row.\<close>

definition no_header_file :: excel_file where
  "no_header_file = Map.empty(''CO Attainment'' \<mapsto> [[Text ''Course'', IntNum 1]])"

text \<open>A sheet with the marker of the evaluation table in its first row.\<close>

definition short_evaluation_sheet :: frame where
  "short_evaluation_sheet =
     [[Text ''PO Attainment'', Absent, Absent, Absent, Absent, Absent],
      blank_row,
      blank_row,
      [Text ''CO'', Absent, Absent, Absent, Text ''PO1'', Text '' PO2 ''],
      [Text ''CO1'', Absent, Absent, Absent, FloatNum (5 / 2), Absent]]"

text \<open>The same marker, and a header row with nothing from column 4 on.\<close>

definition headless_evaluation_sheet :: frame where
  "headless_evaluation_sheet =
     [[Text ''PO Attainment'', Absent, Absent, Absent, Absent, Absent],
      blank_row,
      blank_row,
      [Text ''CO'', Text ''PO1'', Absent, Absent, Absent, Absent],
      [Text ''CO1'', IntNum 75, Absent, Absent, IntNum 1, IntNum 2]]"

definition short_file :: excel_file where
  "short_file = Map.empty(''CO Attainment'' \<mapsto> short_evaluation_sheet)"



section \<open>Evaluation\<close>

lemma floor_rat_numeral_div:
  "\<lfloor>(numeral a :: rat) / numeral b\<rfloor> = numeral a div numeral b"
  by (metis floor_divide_of_int_eq of_int_numeral)

lemma frac_digits_numeral:
  "frac_digits (numeral k) r = (if r = 0 then [] else
     (let d = nat \<lfloor>r * 10\<rfloor> in digit_char d # frac_digits (pred_numeral k) (r * 10 - of_nat d)))"
  by (simp add: numeral_eq_Suc)

lemmas string_eval = isspace_def strip_def upper_letters_def lower_letters_def lower_char_def
  upper_char_def lower_def upper_def startswith_def

lemmas number_eval = digit_chars_def is_digit_def digit_val_def digit_char_def str_nat.simps
  str_int_def round_half_even_def round2_def format_2f_def repr_float_def split_sign_def
  nat_of_digits_def parse_exponent_def pow10_def parse_decimal_def py_float_def
  isspace_ascii_def pd_parse_float_def floor_rat_numeral_div frac_digits_numeral Let_def

lemmas frame_eval = notna_def cell_str_def rectangular_def column_mask_def dropna_columns_def
  find_from_def iloc_rows_def row_vals_def is_po_attainment_row_def first_cell_def
  all_absent_def fillna_dash_def quote_def pd_read_excel_def

subsection \<open>The loop over the columns, row by row\<close>

lemma set_label_positions:
  "set (label_positions col labels) = {j. j < length labels \<and> labels ! j = col}"
  by (auto simp: label_positions_def)

lemma distinct_label_positions: "distinct (label_positions col labels)"
  by (simp add: label_positions_def)

lemma singleton_list:
  assumes "distinct xs" "set xs = {j}"
  shows "xs = [j]"
proof (cases xs)
  case Nil
  with assms show ?thesis by simp
next
  case (Cons a ys)
  with assms have "a = j" "set ys \<subseteq> {j}" "j \<notin> set ys"
    by auto
  then have "ys = []"
    by (cases ys) auto
  with Cons \<open>a = j\<close> show ?thesis by simp
qed

lemma label_positions_distinct:
  assumes "distinct labels" "j < length labels"
  shows "label_positions (labels ! j) labels = [j]"
proof -
  have "set (label_positions (labels ! j) labels) = {j}"
    using assms by (auto simp: set_label_positions nth_eq_iff_index_eq)
  with distinct_label_positions show ?thesis by (rule singleton_list)
qed

lemma label_positions_repeated:
  assumes "i < j" "j < length labels" "labels ! i = labels ! j"
  shows "\<nexists>k. label_positions (labels ! j) labels = [k]"
proof
  assume "\<exists>k. label_positions (labels ! j) labels = [k]"
  then obtain k where "set (label_positions (labels ! j) labels) = {k}"
    by auto
  moreover have "i \<in> set (label_positions (labels ! j) labels)"
    "j \<in> set (label_positions (labels ! j) labels)"
    using assms by (auto simp: set_label_positions)
  ultimately show False using assms(1) by auto
qed

text \<open>The loop over the columns ends with the error at the first label that is not the
  label of one column only; otherwise it converts the columns one after the other.\<close>

lemma round_numeric_columns_error:
  assumes "\<exists>col \<in> set cols. \<nexists>k. label_positions col labels = [k]"
  shows "round_numeric_columns cols labels data =
     Inl (TypeError ''arg must be a list, tuple, 1-d array, or Series'')"
  using assms
proof (induction cols arbitrary: data)
  case Nil
  then show ?case by simp
next
  case (Cons col cols)
  show ?case
  proof (cases "\<exists>k. label_positions col labels = [k]")
    case True
    with Cons.prems have "\<exists>c \<in> set cols. \<nexists>k. label_positions c labels = [k]"
      by auto
    from Cons.IH [OF this] True show ?thesis by auto
  next
    case False
    then show ?thesis
      by (cases "label_positions col labels"; cases "tl (label_positions col labels)") auto
  qed
qed

lemma round_numeric_columns_ok:
  assumes "\<forall>i < length js. label_positions (cols ! i) labels = [js ! i]" "length js = length cols"
  shows "round_numeric_columns cols labels data = Inr (foldl (\<lambda>d j. convert_column j d) data js)"
  using assms
proof (induction cols arbitrary: data js)
  case Nil
  then show ?case by simp
next
  case (Cons col cols)
  then obtain j js' where js: "js = j # js'"
    by (cases js) auto
  from Cons.prems js have 1: "label_positions col labels = [j]"
    by auto
  from Cons.prems js have 2: "\<forall>i < length js'. label_positions (cols ! i) labels = [js' ! i]"
    "length js' = length cols"
    by auto
  from Cons.IH [OF 2] 1 js show ?case by simp
qed

lemma foldl_convert_column:
  "foldl (\<lambda>d j. convert_column j d) data js =
     map (\<lambda>r. foldl (\<lambda>r j. r[j := coerce_numeric (r ! j)]) r js) data"
  by (induction js arbitrary: data) (simp_all add: convert_column_def comp_def)

lemma foldl_update_upt:
  "foldl (\<lambda>r j. r[j := f (r ! j)]) (pre @ xs) [length pre ..< length pre + k] =
     pre @ map f (take k xs) @ drop k xs"
proof (induction k)
  case 0
  then show ?case by simp
next
  case (Suc k)
  show ?case
  proof (cases "k < length xs")
    case True
    then have "(pre @ map f (take k xs) @ drop k xs)[length pre + k := f ((pre @ map f (take k xs) @ drop k xs) ! (length pre + k))]
        = pre @ map f (take (Suc k) xs) @ drop (Suc k) xs"
      by (simp add: list_update_append nth_append take_Suc_conv_app_nth Cons_nth_drop_Suc [symmetric])
    with Suc show ?thesis by simp
  next
    case False
    then show ?thesis using Suc by (simp add: list_update_beyond)
  qed
qed

lemma foldl_update_tail:
  "foldl (\<lambda>r j. r[j := f (r ! j)]) (c # cs) [Suc 0 ..< Suc (length cs)] = c # map f cs"
  using foldl_update_upt [of f "[c]" cs "length cs"] by simp

lemma foldl_update_beyond:
  "length xs \<le> a \<Longrightarrow> foldl (\<lambda>r j. r[j := f (r ! j)]) xs [a ..< b] = xs"
  by (induction b) (simp_all add: list_update_beyond)

lemma coerce_numeric_fillna: "coerce_numeric (fillna_dash x) = coerce_numeric x"
  by (simp add: fillna_dash_def coerce_numeric_def to_numeric_def number_eval)

lemma convert_filled_row:
  "foldl (\<lambda>r j. r[j := coerce_numeric (r ! j)]) (map fillna_dash (take n r)) [Suc 0 ..< n]
     = numeric_row (take n r)"
proof (cases "take n r")
  case Nil
  show ?thesis unfolding Nil by (simp add: numeric_row_def foldl_update_beyond)
next
  case (Cons c cs)
  then have "length (c # cs) \<le> n"
    by (metis length_take min.cobounded2)
  then have le: "Suc (length cs) \<le> n" by simp
  let ?u = "\<lambda>r j. r[j := coerce_numeric (r ! j)]"
  have "[Suc 0 ..< Suc (length cs) + (n - Suc (length cs))] =
      [Suc 0 ..< Suc (length cs)] @ [Suc (length cs) ..< Suc (length cs) + (n - Suc (length cs))]"
    by (rule upt_add_eq_append) simp
  moreover have "Suc (length cs) + (n - Suc (length cs)) = n"
    using le by simp
  ultimately have "[Suc 0 ..< n] = [Suc 0 ..< Suc (length cs)] @ [Suc (length cs) ..< n]"
    by simp
  then have "foldl ?u (fillna_dash c # map fillna_dash cs) [Suc 0 ..< n]
      = foldl ?u (foldl ?u (fillna_dash c # map fillna_dash cs) [Suc 0 ..< Suc (length cs)])
          [Suc (length cs) ..< n]"
    by simp
  also have "\<dots> = foldl ?u (fillna_dash c # map coerce_numeric cs) [Suc (length cs) ..< n]"
    using foldl_update_tail [of coerce_numeric "fillna_dash c" "map fillna_dash cs"]
    by (simp add: coerce_numeric_fillna comp_def)
  also have "\<dots> = fillna_dash c # map coerce_numeric cs"
    by (rule foldl_update_beyond) simp
  finally show ?thesis using Cons by (simp add: numeric_row_def)
qed

lemma finish_table_rowwise:
  "finish_table title header data =
     (if distinct header then
        Inr \<lparr>heading = title, columns = header,
             rows = map (\<lambda>r. numeric_row (take (length header) r)) data\<rparr>
      else Inl (TypeError ''arg must be a list, tuple, 1-d array, or Series''))"
proof (cases "distinct header")
  case False
  then obtain i j where ij: "i < j" "j < length header" "header ! i = header ! j"
    by (metis distinct_conv_nth nat_neq_iff)
  then have "header ! j \<in> set (tl header)"
    by (cases header) (auto simp: nth_Cons split: nat.splits)
  with label_positions_repeated [OF ij]
  have "\<exists>col \<in> set (tl header). \<nexists>k. label_positions col header = [k]"
    by blast
  from round_numeric_columns_error [OF this] False show ?thesis
    by (simp add: finish_table_def)
next
  case True
  let ?js = "[Suc 0 ..< length header]"
  have 1: "\<forall>i < length ?js. label_positions (tl header ! i) header = [?js ! i]"
    using True by (auto simp: nth_tl label_positions_distinct)
  have 2: "length ?js = length (tl header)"
    by simp
  from round_numeric_columns_ok [OF 1 2] True show ?thesis
    by (simp add: finish_table_def foldl_convert_column convert_filled_row comp_def)
qed

lemmas co_mapping_eval = is_co_header_def normalize_header_def data_region_def
  is_overall_row_def to_numeric_def coerce_numeric_def numeric_row_def finish_table_rowwise
  nb_hyphen_def co_mapping_of_frame_def extract_co_mapping_def

lemmas co_pso_eval = is_co_pso_header_def pso_header_def is_course_row_def
  co_pso_mapping_of_frame_def extract_co_pso_mapping_def

lemmas po_attainment_eval = row_strs_def is_po_header_row_def round_or_keep_def
  po_attainment_of_frame_def extract_po_attainment_def

lemmas po_evaluation_eval = row_strs_def po_eval_header_def po_eval_value_def po_eval_at_def
  po_evaluation_of_frame_def extract_po_evaluation_table_def

lemmas spec_eval = same_text_ci_def startswith_ci_def spec_co_header_def spec_labeled_value_def

lemmas summary_eval = ws_str_def is_number_def target_cell_text_def mentions_target_def
  target_of_row_def target_value_of_rows_def extract_target_value_def has_label_def
  level_scan_def external_attainment_def internal_attainment_def exit_survey_attainment_def

section \<open>Scanning and slicing\<close>

lemma find_first_None_iff: "find_first P xs = None \<longleftrightarrow> (\<forall>x \<in> set xs. \<not> P x)"
  by (induction xs) auto

lemma find_first_append_hit:
  "\<forall>x \<in> set pre. \<not> P x \<Longrightarrow> P y \<Longrightarrow> find_first P (pre @ y # rest) = Some (length pre)"
  by (induction pre) auto

lemma find_first_Some_D:
  "find_first P xs = Some i \<Longrightarrow> i < length xs \<and> P (xs ! i) \<and> (\<forall>j < i. \<not> P (xs ! j))"
proof (induction xs arbitrary: i)
  case Nil
  then show ?case by simp
next
  case (Cons x xs)
  show ?case
  proof (cases "P x")
    case True
    with Cons.prems show ?thesis by simp
  next
    case False
    with Cons.prems obtain k where k: "find_first P xs = Some k" "i = Suc k"
      by auto
    from Cons.IH [OF k(1)] False k(2) show ?thesis
      by (auto simp: nth_Cons split: nat.splits)
  qed
qed

lemma find_first_Some_I:
  assumes "i < length xs" "P (xs ! i)" "\<forall>j < i. \<not> P (xs ! j)"
  shows "find_first P xs = Some i"
proof -
  have split: "xs = take i xs @ xs ! i # drop (Suc i) xs"
    using assms(1) by (simp add: id_take_nth_drop [symmetric])
  have "\<forall>x \<in> set (take i xs). \<not> P x"
    using assms(1) assms(3) by (auto simp: in_set_conv_nth)
  then have "find_first P (take i xs @ xs ! i # drop (Suc i) xs) = Some (length (take i xs))"
    using assms(2) by (rule find_first_append_hit)
  with split assms(1) show ?thesis by simp
qed

lemma find_first_Some_iff:
  "find_first P xs = Some i \<longleftrightarrow> i < length xs \<and> P (xs ! i) \<and> (\<forall>j < i. \<not> P (xs ! j))"
  using find_first_Some_D find_first_Some_I by blast

lemma is_po_attainment_row_iff:
  "is_po_attainment_row r \<longleftrightarrow>
     (\<exists>c \<in> set r. c \<noteq> Absent \<and> lower (strip (cell_str c)) = ''po attainment'')"
  by (auto simp: is_po_attainment_row_def row_vals_def list_ex_iff notna_def)

lemma data_region_stop:
  assumes "drop (Suc h) df = mid @ s # post"
    and "\<forall>r \<in> set mid. \<not> is_po_attainment_row r" and "is_po_attainment_row s"
  shows "data_region h df = mid"
proof -
  have "find_first is_po_attainment_row (mid @ s # post) = Some (length mid)"
    using assms(2,3) by (rule find_first_append_hit)
  then show ?thesis using assms(1)
    by (simp add: data_region_def find_from_def iloc_rows_def)
qed

lemma data_region_no_stop:
  assumes "\<forall>r \<in> set (drop (Suc h) df). \<not> is_po_attainment_row r"
  shows "data_region h df = drop (Suc h) df"
  using assms by (simp add: data_region_def find_from_def find_first_None_iff [THEN iffD2])

section \<open>The data region\<close>

text \<open>
  Claim C2. When \<open>extract_co_mapping\<close> has found its header at row \<open>h\<close> of the sheet
  without its empty columns, the data region is made of the rows strictly between the
  header and the first later row with a cell that is, trimmed and without regard to case,
  \<open>po attainment\<close>; that row is left out. When no later row has such a cell the
  region is every row after the header, and once the rows without a cell are dropped it
  ends with the last row that has one. The table is built from this region.
\<close>

theorem data_region_between:
  assumes "df = dropna_columns sheet"
    and "find_first (is_co_header prefix) df = Some h"
  shows "(\<forall>r. is_po_attainment_row r \<longleftrightarrow>
            (\<exists>c \<in> set r. c \<noteq> Absent \<and> lower (strip (cell_str c)) = ''po attainment''))
    \<and> (\<forall>mid s post. drop (Suc h) df = mid @ s # post
            \<and> (\<forall>r \<in> set mid. \<not> is_po_attainment_row r) \<and> is_po_attainment_row s
          \<longrightarrow> data_region h df = mid)
    \<and> ((\<forall>r \<in> set (drop (Suc h) df). \<not> is_po_attainment_row r)
          \<longrightarrow> data_region h df = drop (Suc h) df)
    \<and> (\<forall>body blank. drop (Suc h) df = body @ blank
            \<and> (\<forall>r \<in> set (drop (Suc h) df). \<not> is_po_attainment_row r)
            \<and> (\<forall>r \<in> set blank. all_absent r)
          \<longrightarrow> filter (\<lambda>r. \<not> all_absent r) (data_region h df) =
                filter (\<lambda>r. \<not> all_absent r) body)
    \<and> co_mapping_of_frame sheet_name prefix sheet =
        finish_table (''Mapping of CO with '' @ prefix @ ''s:'') (normalize_header prefix (df ! h))
          (filter (\<lambda>r. \<not> all_absent r) (filter (\<lambda>r. \<not> is_overall_row r) (data_region h df)))"
proof -
  have a: "\<forall>r. is_po_attainment_row r \<longleftrightarrow>
      (\<exists>c \<in> set r. c \<noteq> Absent \<and> lower (strip (cell_str c)) = ''po attainment'')"
    by (simp add: is_po_attainment_row_iff)
  have b: "\<forall>mid s post. drop (Suc h) df = mid @ s # post
      \<and> (\<forall>r \<in> set mid. \<not> is_po_attainment_row r) \<and> is_po_attainment_row s
      \<longrightarrow> data_region h df = mid"
    using data_region_stop by blast
  have c: "(\<forall>r \<in> set (drop (Suc h) df). \<not> is_po_attainment_row r)
      \<longrightarrow> data_region h df = drop (Suc h) df"
    using data_region_no_stop by blast
  have d: "co_mapping_of_frame sheet_name prefix sheet =
        finish_table (''Mapping of CO with '' @ prefix @ ''s:'') (normalize_header prefix (df ! h))
          (filter (\<lambda>r. \<not> all_absent r) (filter (\<lambda>r. \<not> is_overall_row r) (data_region h df)))"
    using assms by (simp add: co_mapping_of_frame_def Let_def)
  have e: "\<forall>body blank. drop (Suc h) df = body @ blank
            \<and> (\<forall>r \<in> set (drop (Suc h) df). \<not> is_po_attainment_row r)
            \<and> (\<forall>r \<in> set blank. all_absent r)
          \<longrightarrow> filter (\<lambda>r. \<not> all_absent r) (data_region h df) =
                filter (\<lambda>r. \<not> all_absent r) body"
  proof (intro allI impI)
    fix body blank
    assume k: "drop (Suc h) df = body @ blank
            \<and> (\<forall>r \<in> set (drop (Suc h) df). \<not> is_po_attainment_row r)
            \<and> (\<forall>r \<in> set blank. all_absent r)"
    then have "data_region h df = body @ blank"
      using data_region_no_stop by metis
    moreover from k have "filter (\<lambda>r. \<not> all_absent r) blank = []"
      by (simp add: filter_empty_conv)
    ultimately show "filter (\<lambda>r. \<not> all_absent r) (data_region h df) =
        filter (\<lambda>r. \<not> all_absent r) body"
      by simp
  qed
  from a b c d e show ?thesis by blast
qed

text \<open>The scenario sheet: header at row 2, stop marker at row 6, region rows 3 to 5.\<close>

lemma scenario_dropna:
  "dropna_columns scenario_sheet =
     [[Text ''Course'', Absent, Absent],
      [Absent, Absent, Absent],
      [Text ''CO'', Text ''PO1'', Text ''PO2''],
      [Text ''CO1'', FloatNum (3333 / 1000), Text ''x''],
      [Text ''CO2'', Text ''-'', FloatNum (2667 / 1000)],
      [Text ''Overall CO Attainment: 3.0'', Absent, Absent],
      [Text ''PO Attainment'', Absent, Absent],
      [Text ''CO'', Text ''PO1'', Text ''PO2''],
      [Text ''CO'', FloatNum (5 / 2), FloatNum 3]]"
  by (simp add: scenario_sheet_def frame_eval)

lemma scenario_header:
  "find_first (is_co_header ''PO'') (dropna_columns scenario_sheet) = Some 2"
  unfolding scenario_dropna by (simp add: string_eval row_vals_def notna_def cell_str_def is_co_header_def)

theorem data_region_between_witness:
  "find_first (is_co_header ''PO'') (dropna_columns scenario_sheet) = Some 2
   \<and> data_region 2 (dropna_columns scenario_sheet) =
       [[Text ''CO1'', FloatNum (3333 / 1000), Text ''x''],
        [Text ''CO2'', Text ''-'', FloatNum (2667 / 1000)],
        [Text ''Overall CO Attainment: 3.0'', Absent, Absent]]"
proof -
  let ?mid = "[[Text ''CO1'', FloatNum (3333 / 1000), Text ''x''],
        [Text ''CO2'', Text ''-'', FloatNum (2667 / 1000)],
        [Text ''Overall CO Attainment: 3.0'', Absent, Absent]]"
  let ?s = "[Text ''PO Attainment'', Absent, Absent]"
  let ?post = "[[Text ''CO'', Text ''PO1'', Text ''PO2''], [Text ''CO'', FloatNum (5 / 2), FloatNum 3]]"
  have d: "drop (Suc 2) (dropna_columns scenario_sheet) = ?mid @ ?s # ?post"
    by (simp add: scenario_dropna)
  have m: "\<forall>r \<in> set ?mid. \<not> is_po_attainment_row r"
    by (simp add: string_eval number_eval frame_eval)
  have s: "is_po_attainment_row ?s"
    by (simp add: string_eval frame_eval)
  from data_region_between [OF refl scenario_header, of "''CO Attainment''"] d m s
  have "data_region 2 (dropna_columns scenario_sheet) = ?mid"
    by blast
  with scenario_header show ?thesis by simp
qed

section \<open>The header row\<close>

lemma upper_append: "upper (a @ b) = upper a @ upper b"
  by (simp add: upper_def)

lemma upper_CO: "upper ''CO'' = ''CO''"
  by (simp add: string_eval)

lemma upper_one: "upper ''1'' = ''1''"
  by (simp add: string_eval)

lemma is_co_header_spec:
  assumes "upper prefix = prefix"
  shows "is_co_header prefix r = spec_co_header prefix r"
  using assms
  by (simp add: is_co_header_def spec_co_header_def same_text_ci_def startswith_ci_def
      upper_append upper_CO upper_one split: list.splits)

lemma finish_table_Inr_iff:
  "(\<exists>t. finish_table title header data = Inr t) \<longleftrightarrow> distinct header"
  by (simp add: finish_table_rowwise)

lemma finish_table_columns:
  "finish_table title header data = Inr t \<Longrightarrow> columns t = header \<and> heading t = title
     \<and> rows t = map (\<lambda>r. numeric_row (take (length header) r)) data"
  by (auto simp: finish_table_rowwise split: if_splits)

text \<open>
  Claim C5, amended. For a prefix written without lower-case letters, as both callers
  pass it, the header row of \<open>extract_co_mapping\<close> is the first row, top to bottom, of
  the sheet without its empty columns whose first cell that is there equals, trimmed and
  without regard to case, \<open>CO\<close> or the prefix followed by \<open>1\<close>, and whose second
  such cell starts, without regard to case, with the prefix. No other row is chosen, and
  the columns of the table come from that row. The code compares the upper-case cell
  with the prefix as it is given, so a prefix with a lower-case letter matches no row.
\<close>

theorem co_header_is_first_match:
  assumes "upper prefix = prefix" and "df = dropna_columns sheet"
  shows "(find_first (is_co_header prefix) df = Some h \<longleftrightarrow>
            h < length df \<and> spec_co_header prefix (df ! h)
            \<and> (\<forall>j < h. \<not> spec_co_header prefix (df ! j)))
    \<and> (find_first (is_co_header prefix) df = None \<longleftrightarrow> (\<forall>r \<in> set df. \<not> spec_co_header prefix r))
    \<and> (\<forall>t. co_mapping_of_frame sheet_name prefix sheet = Inr t \<longrightarrow>
          (\<exists>i. find_first (is_co_header prefix) df = Some i
             \<and> columns t = normalize_header prefix (df ! i)))"
proof -
  have eq: "is_co_header prefix = spec_co_header prefix"
    using is_co_header_spec [OF assms(1)] by (simp add: fun_eq_iff)
  have a: "find_first (is_co_header prefix) df = Some h \<longleftrightarrow>
            h < length df \<and> spec_co_header prefix (df ! h)
            \<and> (\<forall>j < h. \<not> spec_co_header prefix (df ! j))"
    unfolding eq by (rule find_first_Some_iff)
  have b: "find_first (is_co_header prefix) df = None \<longleftrightarrow>
      (\<forall>r \<in> set df. \<not> spec_co_header prefix r)"
    unfolding eq by (rule find_first_None_iff)
  have c: "\<forall>t. co_mapping_of_frame sheet_name prefix sheet = Inr t \<longrightarrow>
          (\<exists>i. find_first (is_co_header prefix) df = Some i
             \<and> columns t = normalize_header prefix (df ! i))"
    using assms(2)
    by (auto simp: co_mapping_of_frame_def Let_def dest: finish_table_columns
        split: option.splits)
  from a b c show ?thesis by blast
qed

theorem co_header_is_first_match_witness:
  "upper ''PO'' = ''PO''
   \<and> find_first (is_co_header ''PO'') (dropna_columns scenario_sheet) = Some 2
   \<and> spec_co_header ''PO'' (dropna_columns scenario_sheet ! 2)
   \<and> \<not> spec_co_header ''PO'' (dropna_columns scenario_sheet ! 0)
   \<and> \<not> spec_co_header ''PO'' (dropna_columns scenario_sheet ! 1)"
proof -
  have u: "upper ''PO'' = ''PO''"
    by (simp add: string_eval)
  from co_header_is_first_match [OF u refl, of scenario_sheet 2 "''CO Attainment''"]
    scenario_header
  have "spec_co_header ''PO'' (dropna_columns scenario_sheet ! 2)
      \<and> (\<forall>j < 2. \<not> spec_co_header ''PO'' (dropna_columns scenario_sheet ! j))"
    by blast
  then have "spec_co_header ''PO'' (dropna_columns scenario_sheet ! 2)
      \<and> \<not> spec_co_header ''PO'' (dropna_columns scenario_sheet ! 0)
      \<and> \<not> spec_co_header ''PO'' (dropna_columns scenario_sheet ! 1)"
    by simp
  with u scenario_header show ?thesis by blast
qed

text \<open>With the prefix \<open>po\<close> the row \<open>CO, PO1\<close> satisfies the predicate of the
  specification, and the code finds no header.\<close>

theorem co_header_lowercase_prefix_counterexample:
  "spec_co_header ''po'' [Text ''CO'', Text ''PO1'']
   \<and> find_first (is_co_header ''po'') (dropna_columns [[Text ''CO'', Text ''PO1'']]) = None
   \<and> co_mapping_of_frame ''CO Attainment'' ''po'' [[Text ''CO'', Text ''PO1'']] =
       Inl (ValueError (''Could not locate CO'' @ nb_hyphen @ ''po header in '' @
              quote ''CO Attainment'' @ '' sheet.''))"
  by (simp add: string_eval frame_eval spec_eval is_co_header_def co_mapping_of_frame_def)

section \<open>Errors\<close>

lemma co_mapping_no_header:
  assumes "\<forall>r \<in> set (dropna_columns sheet). \<not> is_co_header prefix r"
  shows "co_mapping_of_frame sheet_name prefix sheet =
     Inl (ValueError (''Could not locate CO'' @ nb_hyphen @ prefix @
            '' header in '' @ quote sheet_name @ '' sheet.''))"
  using assms by (simp add: co_mapping_of_frame_def find_first_None_iff [THEN iffD2])

lemma co_mapping_returns_iff:
  "(\<exists>t. co_mapping_of_frame sheet_name prefix sheet = Inr t) \<longleftrightarrow>
     (\<exists>h. find_first (is_co_header prefix) (dropna_columns sheet) = Some h
        \<and> distinct (normalize_header prefix (dropna_columns sheet ! h)))"
  by (auto simp: co_mapping_of_frame_def Let_def finish_table_rowwise split: option.splits)

lemma co_pso_mapping_no_header:
  assumes "\<forall>r \<in> set (dropna_columns sheet). \<not> is_co_pso_header r"
  shows "co_pso_mapping_of_frame sheet =
     Inl (ValueError (''Could not locate CO'' @ nb_hyphen @ ''PSO header in '' @
            quote ''PSO Attainment'' @ '' sheet.''))"
  using assms by (simp add: co_pso_mapping_of_frame_def find_first_None_iff [THEN iffD2])

lemma co_pso_mapping_returns_iff:
  "(\<exists>t. co_pso_mapping_of_frame sheet = Inr t) \<longleftrightarrow>
     (\<exists>h. find_first is_co_pso_header (dropna_columns sheet) = Some h
        \<and> distinct (pso_header (dropna_columns sheet ! h)))"
  by (auto simp: co_pso_mapping_of_frame_def Let_def finish_table_rowwise split: option.splits)

text \<open>
  Claim C4, amended. On a sheet with no row that satisfies the header predicate,
  \<open>extract_co_mapping\<close> raises a ValueError whose message names the sheet, and
  \<open>extract_co_pso_mapping\<close> one that names the sheet \<open>PSO Attainment\<close>; the error of
  \<open>extract_co_mapping\<close> leaves \<open>read_excel\<close> unchanged. Each of the two returns a table
  exactly when some row satisfies its header predicate and the names of the normalized
  header of the first such row are pairwise distinct: a name that occurs twice ends the
  numeric conversion with a TypeError.
\<close>

theorem missing_header_raises:
  assumes "xls sheet_name = Some sheet" and "df = dropna_columns sheet"
  shows "((\<forall>r \<in> set df. \<not> is_co_header prefix r) \<longrightarrow>
            extract_co_mapping xls sheet_name prefix =
              Inl (ValueError (''Could not locate CO'' @ nb_hyphen @ prefix @
                     '' header in '' @ quote sheet_name @ '' sheet.'')))
    \<and> ((\<exists>t. extract_co_mapping xls sheet_name prefix = Inr t) \<longleftrightarrow>
          (\<exists>h. find_first (is_co_header prefix) df = Some h
             \<and> distinct (normalize_header prefix (df ! h))))
    \<and> ((\<forall>r \<in> set df. \<not> is_co_pso_header r) \<longrightarrow>
            extract_co_pso_mapping xls sheet_name =
              Inl (ValueError (''Could not locate CO'' @ nb_hyphen @ ''PSO header in '' @
                     quote ''PSO Attainment'' @ '' sheet.'')))
    \<and> ((\<exists>t. extract_co_pso_mapping xls sheet_name = Inr t) \<longleftrightarrow>
          (\<exists>h. find_first is_co_pso_header df = Some h \<and> distinct (pso_header (df ! h))))
    \<and> (\<forall>e. extract_co_mapping xls ''CO Attainment'' ''PO'' = Inl e \<longrightarrow> read_excel xls = Inl e)
    \<and> (\<forall>e co_po po_att.
          extract_co_mapping xls ''CO Attainment'' ''PO'' = Inr co_po
          \<and> extract_po_attainment xls ''CO Attainment'' = Inr po_att
          \<and> extract_co_mapping xls ''PSO Attainment'' ''PSO'' = Inl e
          \<longrightarrow> read_excel xls = Inl e)"
proof -
  have m: "extract_co_mapping xls sheet_name prefix = co_mapping_of_frame sheet_name prefix sheet"
    using assms(1) by (simp add: extract_co_mapping_def pd_read_excel_def)
  have p: "extract_co_pso_mapping xls sheet_name = co_pso_mapping_of_frame sheet"
    using assms(1) by (simp add: extract_co_pso_mapping_def pd_read_excel_def)
  have a: "(\<forall>r \<in> set df. \<not> is_co_header prefix r) \<longrightarrow>
            extract_co_mapping xls sheet_name prefix =
              Inl (ValueError (''Could not locate CO'' @ nb_hyphen @ prefix @
                     '' header in '' @ quote sheet_name @ '' sheet.''))"
    unfolding m assms(2) using co_mapping_no_header by blast
  have b: "(\<exists>t. extract_co_mapping xls sheet_name prefix = Inr t) \<longleftrightarrow>
          (\<exists>h. find_first (is_co_header prefix) df = Some h
             \<and> distinct (normalize_header prefix (df ! h)))"
    unfolding m assms(2) by (rule co_mapping_returns_iff)
  have c: "(\<forall>r \<in> set df. \<not> is_co_pso_header r) \<longrightarrow>
            extract_co_pso_mapping xls sheet_name =
              Inl (ValueError (''Could not locate CO'' @ nb_hyphen @ ''PSO header in '' @
                     quote ''PSO Attainment'' @ '' sheet.''))"
    unfolding p assms(2) using co_pso_mapping_no_header by blast
  have d: "(\<exists>t. extract_co_pso_mapping xls sheet_name = Inr t) \<longleftrightarrow>
          (\<exists>h. find_first is_co_pso_header df = Some h \<and> distinct (pso_header (df ! h)))"
    unfolding p assms(2) by (rule co_pso_mapping_returns_iff)
  have e: "\<forall>e. extract_co_mapping xls ''CO Attainment'' ''PO'' = Inl e \<longrightarrow> read_excel xls = Inl e"
    by (simp add: read_excel_def)
  have f: "\<forall>e co_po po_att.
          extract_co_mapping xls ''CO Attainment'' ''PO'' = Inr co_po
          \<and> extract_po_attainment xls ''CO Attainment'' = Inr po_att
          \<and> extract_co_mapping xls ''PSO Attainment'' ''PSO'' = Inl e
          \<longrightarrow> read_excel xls = Inl e"
    by (simp add: read_excel_def)
  from a b c d e f show ?thesis by blast
qed

theorem missing_header_raises_witness:
  "no_header_file ''CO Attainment'' = Some [[Text ''Course'', IntNum 1]]
   \<and> extract_co_mapping no_header_file ''CO Attainment'' ''PO'' =
       Inl (ValueError (''Could not locate CO'' @ nb_hyphen @ ''PO header in '' @
              quote ''CO Attainment'' @ '' sheet.''))
   \<and> read_excel no_header_file =
       Inl (ValueError (''Could not locate CO'' @ nb_hyphen @ ''PO header in '' @
              quote ''CO Attainment'' @ '' sheet.''))"
proof -
  let ?sheet = "[[Text ''Course'', IntNum 1]]"
  have s: "no_header_file ''CO Attainment'' = Some ?sheet"
    by (simp add: no_header_file_def)
  have n: "\<forall>r \<in> set (dropna_columns ?sheet). \<not> is_co_header ''PO'' r"
    by (simp add: string_eval number_eval frame_eval is_co_header_def)
  note t = missing_header_raises [where xls = no_header_file and sheet_name = "''CO Attainment''"
      and prefix = "''PO''", OF s refl]
  from t n have 1: "extract_co_mapping no_header_file ''CO Attainment'' ''PO'' =
       Inl (ValueError (''Could not locate CO'' @ nb_hyphen @ ''PO header in '' @
              quote ''CO Attainment'' @ '' sheet.''))"
    by simp
  from t 1 have 2: "read_excel no_header_file =
       Inl (ValueError (''Could not locate CO'' @ nb_hyphen @ ''PO header in '' @
              quote ''CO Attainment'' @ '' sheet.''))"
    by blast
  from s 1 2 show ?thesis by blast
qed

text \<open>The row \<open>CO, PO1, PO1\<close> satisfies the header predicate, and the function raises.\<close>

theorem repeated_column_counterexample:
  "is_co_header ''PO'' [Text ''CO'', Text ''PO1'', Text ''PO1'']
   \<and> co_mapping_of_frame ''CO Attainment'' ''PO''
        [[Text ''CO'', Text ''PO1'', Text ''PO1''], [Text ''CO1'', IntNum 3, IntNum 2]] =
       Inl (TypeError ''arg must be a list, tuple, 1-d array, or Series'')"
  by (simp add: string_eval frame_eval co_mapping_eval)

section \<open>A table with no rows\<close>

text \<open>
  Claim C8, amended. When the header row is found, its normalized names are pairwise
  distinct and every row of the data region is dropped (it is an overall row or has no
  cell), \<open>extract_co_mapping\<close> returns a table with no rows whose columns are the
  normalized header. With a repeated name it raises TypeError also then.
\<close>

theorem empty_region_gives_empty_table:
  assumes "df = dropna_columns sheet"
    and "find_first (is_co_header prefix) df = Some h"
    and "distinct (normalize_header prefix (df ! h))"
    and "\<forall>r \<in> set (data_region h df). is_overall_row r \<or> all_absent r"
  shows "co_mapping_of_frame sheet_name prefix sheet =
     Inr \<lparr>heading = ''Mapping of CO with '' @ prefix @ ''s:'',
          columns = normalize_header prefix (df ! h), rows = []\<rparr>"
proof -
  have "filter (\<lambda>r. \<not> all_absent r) (filter (\<lambda>r. \<not> is_overall_row r) (data_region h df)) = []"
    using assms(4) by (auto simp: filter_empty_conv)
  then show ?thesis
    using assms(1,2,3) by (simp add: co_mapping_of_frame_def Let_def finish_table_rowwise)
qed

theorem empty_region_gives_empty_table_witness:
  "find_first (is_co_header ''PO'') (dropna_columns [[Text ''PO1'', Text ''PO2''], [Absent, Absent]]) = Some 0
   \<and> co_mapping_of_frame ''CO Attainment'' ''PO'' [[Text ''PO1'', Text ''PO2''], [Absent, Absent]] =
       Inr \<lparr>heading = ''Mapping of CO with POs:'', columns = [''CO'', ''PO2''], rows = []\<rparr>"
proof -
  let ?sheet = "[[Text ''PO1'', Text ''PO2''], [Absent, Absent]]"
  have d: "dropna_columns ?sheet = ?sheet"
    by (simp add: frame_eval)
  have h: "find_first (is_co_header ''PO'') (dropna_columns ?sheet) = Some 0"
    unfolding d by (simp add: string_eval frame_eval is_co_header_def)
  have n: "normalize_header ''PO'' (dropna_columns ?sheet ! 0) = [''CO'', ''PO2'']"
    unfolding d by (simp add: string_eval frame_eval normalize_header_def)
  have r: "\<forall>r \<in> set (data_region 0 (dropna_columns ?sheet)). is_overall_row r \<or> all_absent r"
    unfolding d by (simp add: string_eval frame_eval data_region_def)
  from empty_region_gives_empty_table [OF refl h _ r, of "''CO Attainment''"] n h
  show ?thesis by simp
qed

text \<open>The header is found, no row of data is left, and the names \<open>nan\<close> of the two
  header cells that are absent collide.\<close>

theorem empty_region_repeated_column_counterexample:
  "find_first (is_co_header ''PO'')
     (dropna_columns [[Absent, Absent, Text ''a'', Text ''b''],
                      [Text ''CO'', Text ''PO1'', Absent, Absent]]) = Some 1
   \<and> data_region 1 (dropna_columns [[Absent, Absent, Text ''a'', Text ''b''],
                      [Text ''CO'', Text ''PO1'', Absent, Absent]]) = []
   \<and> co_mapping_of_frame ''CO Attainment'' ''PO''
        [[Absent, Absent, Text ''a'', Text ''b''],
         [Text ''CO'', Text ''PO1'', Absent, Absent]] =
       Inl (TypeError ''arg must be a list, tuple, 1-d array, or Series'')"
  by (simp add: string_eval frame_eval co_mapping_eval)

section \<open>The shape of an extracted table\<close>


lemma rectangular_iff: "rectangular df \<longleftrightarrow> (\<exists>n. \<forall>r \<in> set df. length r = n)"
  by (cases df) (auto simp: rectangular_def list_all_iff)















section \<open>The evaluation table\<close>

lemma first_some_None_iff: "first_some f xs = None \<longleftrightarrow> (\<forall>x \<in> set xs. f x = None)"
  by (induction xs) (auto split: option.splits)

lemma first_some_append_hit:
  "\<forall>x \<in> set pre. f x = None \<Longrightarrow> f y = Some v \<Longrightarrow> first_some f (pre @ y # rest) = Some v"
  by (induction pre) auto

lemma first_some_upt:
  assumes "i < n" "f i = Some v" "\<forall>j < i. f j = None"
  shows "first_some f [0 ..< n] = Some v"
proof -
  have "[0 ..< n] = [0 ..< i] @ i # [Suc i ..< n]"
    using assms(1) by (metis less_imp_le_nat upt_add_eq_append upt_conv_Cons zero_le le_add_diff_inverse plus_nat.add_0)
  moreover have "\<forall>x \<in> set [0 ..< i]. f x = None"
    using assms(3) by simp
  ultimately show ?thesis
    using assms(2) by (simp add: first_some_append_hit)
qed

lemma po_eval_header_comprehension:
  "po_eval_header r = [strip (cell_str c). c \<leftarrow> drop 4 r, c \<noteq> Absent, strip (cell_str c) \<noteq> []]"
proof -
  have "filter (\<lambda>s. s \<noteq> []) (map (\<lambda>c. strip (cell_str c)) (filter notna xs)) =
      [strip (cell_str c). c \<leftarrow> xs, c \<noteq> Absent, strip (cell_str c) \<noteq> []]" for xs
    by (induction xs) (simp_all add: notna_def)
  then show ?thesis by (simp add: po_eval_header_def)
qed

lemma is_digit_digit_char: "is_digit (digit_char n)"
  unfolding is_digit_def digit_char_def by (rule nth_mem) (simp add: digit_chars_def)

lemma format_2f_shape:
  "\<exists>w d1 d2. format_2f x = w @ [CHR ''.'', d1, d2] \<and> is_digit d1 \<and> is_digit d2"
proof -
  let ?n = "nat (round_half_even (\<bar>x\<bar> * 100))"
  have "format_2f x = ((if x < 0 then ''-'' else []) @ str_nat (?n div 100)) @
      [CHR ''.'', digit_char (?n div 10), digit_char ?n]"
    by (simp add: format_2f_def Let_def)
  then show ?thesis using is_digit_digit_char by blast
qed

lemma po_eval_at_Some:
  assumes "rectangular df" "i + 4 < length df"
    and "\<exists>c \<in> set (df ! i). contains ''PO Attainment'' (strip (cell_str c))"
    and "po_eval_header (df ! (i + 3)) \<noteq> []"
  shows "po_eval_at df i = Some (po_eval_header (df ! (i + 3)),
     map po_eval_value (take (length (po_eval_header (df ! (i + 3)))) (drop 4 (df ! (i + 4)))))"
proof -
  from assms(1) obtain n where n: "\<forall>r \<in> set df. length r = n"
    by (auto simp: rectangular_iff)
  from assms(4) have "drop 4 (df ! (i + 3)) \<noteq> []"
    by (auto simp: po_eval_header_def)
  then have "4 < length (df ! (i + 3))" by simp
  moreover have "length (df ! (i + 3)) = n" "length (df ! (i + 4)) = n"
    using n assms(2) by simp_all
  ultimately have "drop 4 (df ! (i + 4)) \<noteq> []" by simp
  with assms(4) have "take (length (po_eval_header (df ! (i + 3)))) (drop 4 (df ! (i + 4))) \<noteq> []"
    by (cases "po_eval_header (df ! (i + 3))"; cases "drop 4 (df ! (i + 4))") simp_all
  moreover have "list_ex (contains ''PO Attainment'') (row_strs (df ! i))"
    using assms(3) by (auto simp: list_ex_iff row_strs_def)
  ultimately show ?thesis
    using assms(2,4) by (simp add: po_eval_at_def Let_def)
qed

lemma po_eval_at_None:
  assumes "\<not> (i + 4 < length df
      \<and> (\<exists>c \<in> set (df ! i). contains ''PO Attainment'' (strip (cell_str c)))
      \<and> po_eval_header (df ! (i + 3)) \<noteq> [])"
  shows "po_eval_at df i = None"
proof -
  have "list_ex (contains ''PO Attainment'') (row_strs (df ! i)) \<longleftrightarrow>
      (\<exists>c \<in> set (df ! i). contains ''PO Attainment'' (strip (cell_str c)))"
    by (auto simp: list_ex_iff row_strs_def)
  with assms show ?thesis
    by (auto simp: po_eval_at_def Let_def)
qed

text \<open>
  Claim C3, amended. \<open>extract_po_evaluation_table\<close> takes the first row \<open>i\<close>, top to
  bottom, of the sheet \<open>CO Attainment\<close> that has a cell whose text contains
  \<open>PO Attainment\<close>, has row \<open>i + 4\<close> within the sheet, and whose row \<open>i + 3\<close> has from
  column 4 on at least one cell that is neither absent nor blank. It returns the trimmed
  texts of those cells of row \<open>i + 3\<close> as the header, and as the data the cells of row
  \<open>i + 4\<close> from column 4 on, as many as the header has, a number written with two
  decimals and an absent cell as \<open>-\<close>. When no row is such a row it returns \<open>None\<close>.
\<close>

theorem po_evaluation_first_ready_marker:
  assumes "xls ''CO Attainment'' = Some df" and "rectangular df"
  shows "(\<forall>i. i + 4 < length df
            \<and> (\<exists>c \<in> set (df ! i). contains ''PO Attainment'' (strip (cell_str c)))
            \<and> po_eval_header (df ! (i + 3)) \<noteq> []
            \<and> (\<forall>j < i. \<not> (j + 4 < length df
                  \<and> (\<exists>c \<in> set (df ! j). contains ''PO Attainment'' (strip (cell_str c)))
                  \<and> po_eval_header (df ! (j + 3)) \<noteq> []))
          \<longrightarrow> extract_po_evaluation_table xls =
                Some (po_eval_header (df ! (i + 3)),
                      map po_eval_value
                        (take (length (po_eval_header (df ! (i + 3)))) (drop 4 (df ! (i + 4))))))
    \<and> ((\<forall>i. \<not> (i + 4 < length df
              \<and> (\<exists>c \<in> set (df ! i). contains ''PO Attainment'' (strip (cell_str c)))
              \<and> po_eval_header (df ! (i + 3)) \<noteq> []))
          \<longrightarrow> extract_po_evaluation_table xls = None)
    \<and> (\<forall>r. po_eval_header r =
            [strip (cell_str c). c \<leftarrow> drop 4 r, c \<noteq> Absent, strip (cell_str c) \<noteq> []])
    \<and> po_eval_value Absent = ''-''
    \<and> (\<forall>x. po_eval_value (FloatNum x) = format_2f x)
    \<and> (\<forall>k. po_eval_value (IntNum k) = format_2f (of_int k))
    \<and> (\<forall>s x. py_float (strip s) = Some x \<longrightarrow> po_eval_value (Text s) = format_2f x)
    \<and> (\<forall>s. py_float (strip s) = None \<longrightarrow> po_eval_value (Text s) = strip s)
    \<and> (\<forall>x. \<exists>w d1 d2. format_2f x = w @ [CHR ''.'', d1, d2] \<and> is_digit d1 \<and> is_digit d2)
    \<and> po_evaluation_of_frame evaluation_sheet = Some ([''PO1'', ''PO2''], [''75.00'', ''80.00''])"
proof -
  have x: "extract_po_evaluation_table xls = po_evaluation_of_frame df"
    using assms(1) by (simp add: extract_po_evaluation_table_def pd_read_excel_def)
  have a: "\<forall>i. i + 4 < length df
            \<and> (\<exists>c \<in> set (df ! i). contains ''PO Attainment'' (strip (cell_str c)))
            \<and> po_eval_header (df ! (i + 3)) \<noteq> []
            \<and> (\<forall>j < i. \<not> (j + 4 < length df
                  \<and> (\<exists>c \<in> set (df ! j). contains ''PO Attainment'' (strip (cell_str c)))
                  \<and> po_eval_header (df ! (j + 3)) \<noteq> []))
          \<longrightarrow> extract_po_evaluation_table xls =
                Some (po_eval_header (df ! (i + 3)),
                      map po_eval_value
                        (take (length (po_eval_header (df ! (i + 3)))) (drop 4 (df ! (i + 4)))))"
  proof (intro allI impI)
    fix i
    assume h: "i + 4 < length df
            \<and> (\<exists>c \<in> set (df ! i). contains ''PO Attainment'' (strip (cell_str c)))
            \<and> po_eval_header (df ! (i + 3)) \<noteq> []
            \<and> (\<forall>j < i. \<not> (j + 4 < length df
                  \<and> (\<exists>c \<in> set (df ! j). contains ''PO Attainment'' (strip (cell_str c)))
                  \<and> po_eval_header (df ! (j + 3)) \<noteq> []))"
    then have 1: "po_eval_at df i = Some (po_eval_header (df ! (i + 3)),
        map po_eval_value (take (length (po_eval_header (df ! (i + 3)))) (drop 4 (df ! (i + 4)))))"
      using po_eval_at_Some [OF assms(2)] by blast
    from h have 2: "\<forall>j < i. po_eval_at df j = None"
      using po_eval_at_None by blast
    from h have 3: "i < length df" by simp
    from first_some_upt [OF 3 1 2] show "extract_po_evaluation_table xls =
                Some (po_eval_header (df ! (i + 3)),
                      map po_eval_value
                        (take (length (po_eval_header (df ! (i + 3)))) (drop 4 (df ! (i + 4)))))"
      by (simp add: x po_evaluation_of_frame_def)
  qed
  have b: "(\<forall>i. \<not> (i + 4 < length df
              \<and> (\<exists>c \<in> set (df ! i). contains ''PO Attainment'' (strip (cell_str c)))
              \<and> po_eval_header (df ! (i + 3)) \<noteq> []))
          \<longrightarrow> extract_po_evaluation_table xls = None"
    using po_eval_at_None by (simp add: x po_evaluation_of_frame_def first_some_None_iff)
  have c: "\<forall>r. po_eval_header r =
            [strip (cell_str c). c \<leftarrow> drop 4 r, c \<noteq> Absent, strip (cell_str c) \<noteq> []]"
    using po_eval_header_comprehension by blast
  have d: "po_eval_value Absent = ''-''"
    and e: "\<forall>x. po_eval_value (FloatNum x) = format_2f x"
    and f: "\<forall>k. po_eval_value (IntNum k) = format_2f (of_int k)"
    and g: "\<forall>s x. py_float (strip s) = Some x \<longrightarrow> po_eval_value (Text s) = format_2f x"
    and h: "\<forall>s. py_float (strip s) = None \<longrightarrow> po_eval_value (Text s) = strip s"
    by (simp_all add: po_eval_value_def)
  have i: "\<forall>x. \<exists>w d1 d2. format_2f x = w @ [CHR ''.'', d1, d2] \<and> is_digit d1 \<and> is_digit d2"
    using format_2f_shape by blast
  have j: "po_evaluation_of_frame evaluation_sheet = Some ([''PO1'', ''PO2''], [''75.00'', ''80.00''])"
    by (simp add: evaluation_sheet_def blank_row_def string_eval number_eval frame_eval
        po_evaluation_eval)
  from a b c d e f g h i j show ?thesis by blast
qed

theorem po_evaluation_first_ready_marker_witness:
  "short_file ''CO Attainment'' = Some short_evaluation_sheet
   \<and> rectangular short_evaluation_sheet
   \<and> extract_po_evaluation_table short_file = Some ([''PO1'', ''PO2''], [''2.50'', ''-''])"
proof -
  let ?df = short_evaluation_sheet
  have s: "short_file ''CO Attainment'' = Some ?df"
    by (simp add: short_file_def)
  have r: "rectangular ?df"
    by (simp add: short_evaluation_sheet_def blank_row_def rectangular_def)
  have l: "0 + 4 < length ?df"
    by (simp add: short_evaluation_sheet_def)
  have m: "\<exists>c \<in> set (?df ! 0). contains ''PO Attainment'' (strip (cell_str c))"
    by (simp add: short_evaluation_sheet_def string_eval frame_eval)
  have hd: "po_eval_header (?df ! (0 + 3)) = [''PO1'', ''PO2'']"
    by (simp add: short_evaluation_sheet_def string_eval frame_eval po_eval_header_def)
  have dt: "map po_eval_value (take (length (po_eval_header (?df ! (0 + 3)))) (drop 4 (?df ! (0 + 4)))) =
      [''2.50'', ''-'']"
    unfolding hd
    by (simp add: short_evaluation_sheet_def string_eval number_eval po_eval_value_def)
  note t = po_evaluation_first_ready_marker [where xls = short_file and df = ?df, OF s r,
      THEN conjunct1, rule_format, of 0]
  have "extract_po_evaluation_table short_file =
      Some (po_eval_header (?df ! (0 + 3)),
            map po_eval_value (take (length (po_eval_header (?df ! (0 + 3)))) (drop 4 (?df ! (0 + 4)))))"
    by (rule t) (use l m hd in simp)
  from this [unfolded dt]
  have "extract_po_evaluation_table short_file = Some ([''PO1'', ''PO2''], [''2.50'', ''-''])"
    by (simp only: hd)
  with s r show ?thesis by blast
qed

text \<open>The first row holds the marker and row 4 is within the sheet, yet the function
  returns \<open>None\<close>, not a header and a data row: the header row has nothing from column 4
  on.\<close>

theorem po_evaluation_headless_counterexample:
  "list_ex (\<lambda>c. contains ''PO Attainment'' (strip (cell_str c))) (headless_evaluation_sheet ! 0)
   \<and> 0 + 4 < length headless_evaluation_sheet
   \<and> po_eval_header (headless_evaluation_sheet ! 3) = []
   \<and> po_evaluation_of_frame headless_evaluation_sheet = None"
  by (simp add: headless_evaluation_sheet_def blank_row_def string_eval number_eval frame_eval
      po_evaluation_eval)

section \<open>Summary values\<close>

lemma find_append_hit:
  "\<forall>x \<in> set pre. \<not> P x \<Longrightarrow> P y \<Longrightarrow> List.find P (pre @ y # rest) = Some y"
  by (induction pre) auto

lemma has_label_iff:
  "has_label label r \<longleftrightarrow> (\<exists>c \<in> set r. contains label (ws_str c))"
  by (auto simp: has_label_def list_ex_iff)

lemma level_scan_spec: "level_scan label rs = spec_labeled_value label rs"
proof -
  have "has_label label = (\<lambda>r. list_ex (\<lambda>c. contains label (ws_str c)) r)"
    by (auto simp: fun_eq_iff has_label_def)
  then show ?thesis by (simp add: level_scan_def spec_labeled_value_def)
qed

lemma level_scan_hit:
  assumes "\<forall>q \<in> set pre. \<not> (\<exists>c \<in> set q. contains label (ws_str c))"
    and "\<exists>c \<in> set r. contains label (ws_str c)"
  shows "level_scan label (pre @ r # post) = List.find is_number (rev r)"
  using assms by (simp add: level_scan_def has_label_iff find_append_hit)

lemma level_scan_miss:
  assumes "\<forall>q \<in> set rs. \<not> (\<exists>c \<in> set q. contains label (ws_str c))"
  shows "level_scan label rs = None"
  using assms by (simp add: level_scan_def has_label_iff find_None_iff [THEN iffD2])

lemma find_number_rev:
  "\<forall>c \<in> set after. \<not> is_number c \<Longrightarrow> is_number v \<Longrightarrow>
     List.find is_number (rev (before @ v # after)) = Some v"
  by (simp add: find_append_hit)

lemma find_number_none:
  "\<forall>c \<in> set r. \<not> is_number c \<Longrightarrow> List.find is_number (rev r) = None"
  by (simp add: find_None_iff)

lemma mentions_target_iff:
  "mentions_target r \<longleftrightarrow>
     (\<exists>c \<in> set r. c \<noteq> Absent
        \<and> contains ''number of students scoring >='' (lower (strip (ws_str c))))"
proof -
  have "\<not> contains ''number of students scoring >='' (lower [])"
    by (simp add: lower_def)
  then show ?thesis
    by (auto simp: mentions_target_def list_ex_iff target_cell_text_def split: if_splits)
qed

lemma target_of_row_hit:
  assumes "mentions_target r" "r = before @ v # after"
    and "\<forall>c \<in> set before. \<not> is_number c" "is_number v"
  shows "target_of_row r =
     Some (case v of IntNum i \<Rightarrow> str_int i | FloatNum x \<Rightarrow> format_2f x | _ \<Rightarrow> [])"
  using assms by (cases v) (simp_all add: target_of_row_def find_append_hit is_number_def)

lemma target_of_row_miss:
  assumes "\<not> mentions_target r \<or> (\<forall>c \<in> set r. \<not> is_number c)"
  shows "target_of_row r = None"
proof (cases "mentions_target r")
  case False
  then show ?thesis by (simp add: target_of_row_def)
next
  case True
  with assms have "List.find is_number r = None"
    by (simp add: find_None_iff)
  then show ?thesis by (simp add: target_of_row_def)
qed

text \<open>
  Claim C7, amended. The three scans for an attainment level (\<open>Attainment Level\<close>,
  \<open>Target Level\<close>, \<open>Final attainment level\<close>) take the first row, top to bottom, with
  a cell whose text contains the label as it is written, read that row from its end and
  give the first number they meet, or nothing when the row has no number or no row has
  the label. The scan for the target value is different: it looks for
  \<open>number of students scoring >=\<close> in the trimmed text of a cell without regard to case,
  takes the first row that has such a cell and a number, and gives the first number of
  that row read from its start, as a text; with no such row it gives the sentinel.
  Neither raises an error.
\<close>

theorem summary_value_scans:
  assumes "label \<in> {''Attainment Level'', ''Target Level'', ''Final attainment level''}"
  shows "level_scan label rs = spec_labeled_value label rs
    \<and> external_attainment rs = spec_labeled_value ''Attainment Level'' rs
    \<and> internal_attainment rs = spec_labeled_value ''Target Level'' rs
    \<and> exit_survey_attainment rs = spec_labeled_value ''Final attainment level'' rs
    \<and> (\<forall>pre r post before v after.
          rs = pre @ r # post
          \<and> (\<forall>q \<in> set pre. \<not> (\<exists>c \<in> set q. contains label (ws_str c)))
          \<and> (\<exists>c \<in> set r. contains label (ws_str c))
          \<and> r = before @ v # after \<and> is_number v \<and> (\<forall>c \<in> set after. \<not> is_number c)
          \<longrightarrow> level_scan label rs = Some v)
    \<and> (\<forall>pre r post.
          rs = pre @ r # post
          \<and> (\<forall>q \<in> set pre. \<not> (\<exists>c \<in> set q. contains label (ws_str c)))
          \<and> (\<exists>c \<in> set r. contains label (ws_str c))
          \<and> (\<forall>c \<in> set r. \<not> is_number c)
          \<longrightarrow> level_scan label rs = None)
    \<and> ((\<forall>q \<in> set rs. \<not> (\<exists>c \<in> set q. contains label (ws_str c)))
          \<longrightarrow> level_scan label rs = None)
    \<and> (\<forall>r. mentions_target r \<longleftrightarrow>
          (\<exists>c \<in> set r. c \<noteq> Absent
             \<and> contains ''number of students scoring >='' (lower (strip (ws_str c)))))
    \<and> (\<forall>pre r post before v after.
          rs = pre @ r # post
          \<and> (\<forall>q \<in> set pre. \<not> mentions_target q \<or> (\<forall>c \<in> set q. \<not> is_number c))
          \<and> mentions_target r
          \<and> r = before @ v # after \<and> (\<forall>c \<in> set before. \<not> is_number c) \<and> is_number v
          \<longrightarrow> target_value_of_rows rs =
                (case v of IntNum i \<Rightarrow> str_int i | FloatNum x \<Rightarrow> format_2f x | _ \<Rightarrow> []))
    \<and> ((\<forall>q \<in> set rs. \<not> mentions_target q \<or> (\<forall>c \<in> set q. \<not> is_number c))
          \<longrightarrow> target_value_of_rows rs = ''-'')"
proof -
  have a: "level_scan label rs = spec_labeled_value label rs"
    and b: "external_attainment rs = spec_labeled_value ''Attainment Level'' rs"
    and c: "internal_attainment rs = spec_labeled_value ''Target Level'' rs"
    and d: "exit_survey_attainment rs = spec_labeled_value ''Final attainment level'' rs"
    by (simp_all add: level_scan_spec external_attainment_def internal_attainment_def
        exit_survey_attainment_def)
  have e: "\<forall>pre r post before v after.
          rs = pre @ r # post
          \<and> (\<forall>q \<in> set pre. \<not> (\<exists>c \<in> set q. contains label (ws_str c)))
          \<and> (\<exists>c \<in> set r. contains label (ws_str c))
          \<and> r = before @ v # after \<and> is_number v \<and> (\<forall>c \<in> set after. \<not> is_number c)
          \<longrightarrow> level_scan label rs = Some v"
    using level_scan_hit find_number_rev by metis
  have f: "\<forall>pre r post.
          rs = pre @ r # post
          \<and> (\<forall>q \<in> set pre. \<not> (\<exists>c \<in> set q. contains label (ws_str c)))
          \<and> (\<exists>c \<in> set r. contains label (ws_str c))
          \<and> (\<forall>c \<in> set r. \<not> is_number c)
          \<longrightarrow> level_scan label rs = None"
    using level_scan_hit find_number_none by metis
  have g: "(\<forall>q \<in> set rs. \<not> (\<exists>c \<in> set q. contains label (ws_str c)))
          \<longrightarrow> level_scan label rs = None"
    using level_scan_miss by blast
  have h: "\<forall>r. mentions_target r \<longleftrightarrow>
          (\<exists>c \<in> set r. c \<noteq> Absent
             \<and> contains ''number of students scoring >='' (lower (strip (ws_str c))))"
    using mentions_target_iff by blast
  have i: "\<forall>pre r post before v after.
          rs = pre @ r # post
          \<and> (\<forall>q \<in> set pre. \<not> mentions_target q \<or> (\<forall>c \<in> set q. \<not> is_number c))
          \<and> mentions_target r
          \<and> r = before @ v # after \<and> (\<forall>c \<in> set before. \<not> is_number c) \<and> is_number v
          \<longrightarrow> target_value_of_rows rs =
                (case v of IntNum i \<Rightarrow> str_int i | FloatNum x \<Rightarrow> format_2f x | _ \<Rightarrow> [])"
  proof (intro allI impI)
    fix pre r post before v after
    assume k: "rs = pre @ r # post
          \<and> (\<forall>q \<in> set pre. \<not> mentions_target q \<or> (\<forall>c \<in> set q. \<not> is_number c))
          \<and> mentions_target r
          \<and> r = before @ v # after \<and> (\<forall>c \<in> set before. \<not> is_number c) \<and> is_number v"
    then have 1: "\<forall>q \<in> set pre. target_of_row q = None"
      using target_of_row_miss by blast
    from k have 2: "target_of_row r =
        Some (case v of IntNum i \<Rightarrow> str_int i | FloatNum x \<Rightarrow> format_2f x | _ \<Rightarrow> [])"
      using target_of_row_hit by blast
    from k first_some_append_hit [OF 1 2]
    show "target_value_of_rows rs =
        (case v of IntNum i \<Rightarrow> str_int i | FloatNum x \<Rightarrow> format_2f x | _ \<Rightarrow> [])"
      by (simp add: target_value_of_rows_def)
  qed
  have j: "(\<forall>q \<in> set rs. \<not> mentions_target q \<or> (\<forall>c \<in> set q. \<not> is_number c))
          \<longrightarrow> target_value_of_rows rs = ''-''"
  proof
    assume "\<forall>q \<in> set rs. \<not> mentions_target q \<or> (\<forall>c \<in> set q. \<not> is_number c)"
    then have "\<forall>q \<in> set rs. target_of_row q = None"
      using target_of_row_miss by blast
    then have "first_some target_of_row rs = None"
      by (simp add: first_some_None_iff)
    then show "target_value_of_rows rs = ''-''"
      by (simp add: target_value_of_rows_def)
  qed
  from a b c d e f g h i j show ?thesis by blast
qed

theorem summary_value_scans_witness:
  "''Target Level'' \<in> {''Attainment Level'', ''Target Level'', ''Final attainment level''}
   \<and> level_scan ''Target Level''
        [[Text ''Unit Test''], [Text ''Target Level'', IntNum 1, FloatNum (5 / 2), Text ''z'']] =
       Some (FloatNum (5 / 2))"
proof -
  let ?pre = "[[Text ''Unit Test'']]"
  let ?r = "[Text ''Target Level'', IntNum 1, FloatNum (5 / 2), Text ''z'']"
  have l: "''Target Level'' \<in> {''Attainment Level'', ''Target Level'', ''Final attainment level''}"
    by simp
  have 1: "\<forall>q \<in> set ?pre. \<not> (\<exists>c \<in> set q. contains ''Target Level'' (ws_str c))"
    by (simp add: string_eval ws_str_def)
  have 2: "\<exists>c \<in> set ?r. contains ''Target Level'' (ws_str c)"
    by (simp add: string_eval ws_str_def)
  have 3: "?r = [Text ''Target Level'', IntNum 1] @ FloatNum (5 / 2) # [Text ''z'']"
    by simp
  have 4: "is_number (FloatNum (5 / 2))" "\<forall>c \<in> set [Text ''z'']. \<not> is_number c"
    by (simp_all add: is_number_def)
  note t = summary_value_scans [OF l, of "?pre @ ?r # []", THEN conjunct2, THEN conjunct2,
      THEN conjunct2, THEN conjunct2, THEN conjunct1, rule_format,
      of ?pre ?r "[]" "[Text ''Target Level'', IntNum 1]" "FloatNum (5 / 2)" "[Text ''z'']"]
  have "level_scan ''Target Level'' (?pre @ ?r # []) = Some (FloatNum (5 / 2))"
    by (rule t) (use 1 2 3 4 in blast)
  with l show ?thesis by simp
qed

text \<open>The row has the label in lower case and the numbers 1 and 2. Read from its end, as
  the claim has it, the value is 2; the code returns 1.\<close>

theorem target_value_forward_counterexample:
  "spec_labeled_value ''number of students scoring >=''
     [[Text ''number of students scoring >= 40'', IntNum 1, IntNum 2]] = Some (IntNum 2)
   \<and> target_value_of_rows [[Text ''number of students scoring >= 40'', IntNum 1, IntNum 2]] = ''1''
   \<and> spec_labeled_value ''number of students scoring >=''
        [[Text ''Number of students scoring >= 40'', IntNum 7]] = None
   \<and> target_value_of_rows [[Text ''Number of students scoring >= 40'', IntNum 7]] = ''7''"
  by (simp add: string_eval number_eval spec_eval summary_eval)

section \<open>Rows that are not data\<close>

text \<open>
  Claim C6. The first cell of the last row is \<open>Overall CO Attainment : 2.8\<close> after a
  blank. \<open>extract_co_pso_mapping\<close> trims the first cell before it compares it with
  \<open>course\<close>; \<open>extract_co_mapping\<close> does not trim it before it looks for
  \<open>overall co attainment\<close>, and keeps the row.
\<close>

theorem untrimmed_overall_row_is_kept:
  "co_mapping_of_frame ''CO Attainment'' ''PO''
     [[Text ''CO'', Text ''PO1''],
      [Text ''CO1'', IntNum 3],
      [Text ''Overall CO Attainment : 2.8'', Absent],
      [Text '' Overall CO Attainment : 2.8'', FloatNum (14 / 5)]] =
   Inr \<lparr>heading = ''Mapping of CO with POs:'', columns = [''CO'', ''PO1''],
        rows = [[Text ''CO1'', FloatNum 3],
                [Text '' Overall CO Attainment : 2.8'', FloatNum (14 / 5)]]\<rparr>
   \<and> co_pso_mapping_of_frame
     [[Text ''Course Outcomes'', Text ''PSO1''],
      [Text ''CO1'', IntNum 3],
      [Text '' Course '', Text ''PSO1'']] =
   Inr \<lparr>heading = ''Mapping of COs with PSOs:'', columns = [''Course Outcomes'', ''PSO1''],
        rows = [[Text ''CO1'', FloatNum 3]]\<rparr>"
  by (simp add: string_eval number_eval frame_eval co_mapping_eval co_pso_eval)

section \<open>The attainment table\<close>

text \<open>
  Claim C10. The marker is in row 0 and the header \<open>CO, PO1\<close> in row 1, the last row of
  the sheet. The function reads the row after the header without a test of the bound and
  raises IndexError; it returns neither \<open>None\<close> nor a table. With a row after the header
  it returns the table of that one row.
\<close>

theorem header_in_last_row_raises:
  "po_attainment_of_frame [[Text ''PO Attainment'', Absent], [Text ''CO'', Text ''PO1'']] =
     Inl (IndexError ''single positional indexer is out-of-bounds'')
   \<and> po_attainment_of_frame
       [[Text ''PO Attainment'', Absent], [Text ''CO'', Text ''PO1''],
        [Text ''CO1'', FloatNum (2456 / 1000)]] =
     Inr (Some \<lparr>heading = ''PO Attainment Table:'', columns = [Text ''CO'', Text ''PO1''],
                rows = [[Text ''CO1'', FloatNum (246 / 100)]]\<rparr>)
   \<and> po_attainment_of_frame [[Text ''CO'', Text ''PO1''], [Text ''CO1'', IntNum 2]] = Inr None"
  by (simp add: string_eval number_eval frame_eval po_attainment_eval)

section \<open>Determinism\<close>



end
